theory Spec2Isabelle
  imports Main "HOL-Library.Word" "HOL-Library.AList"
begin

unbundle bit_operations_syntax

section \<open>Strings, regular expressions and the string sanitizer\<close>

text \<open>
  A JavaScript string is a sequence of 16-bit code units. Literals of the source are
  written as Isabelle strings and embedded with \<open>js\<close>; every literal of the two
  workers is ASCII, so the embedding is the identity on code points.
\<close>

type_synonym code_unit = "16 word"
type_synonym js_string = "code_unit list"

definition js :: "string \<Rightarrow> js_string" where
  "js s = map of_char s"

text \<open>
  The three patterns of \<open>sanitizeString\<close> carry the flags \<open>g\<close> and \<open>i\<close> and no
  \<open>u\<close>. Under \<open>i\<close> two code units match when their canonical forms agree. Every
  literal character of the patterns is ASCII, and a code unit from 128 on never
  canonicalizes to one below 128, so upper-casing the ASCII letters decides every
  comparison the patterns make.
\<close>

definition canonicalize :: "code_unit \<Rightarrow> code_unit" where
  "canonicalize c = (if 97 \<le> c \<and> c \<le> 122 then c - 32 else c)"

text \<open>
  The fragment of the pattern language the source uses: literal characters, character
  classes, sequence, alternation, and the star in its greedy (\<open>Star True\<close>) and lazy
  (\<open>Star False\<close>) form.
\<close>

datatype regex =
    Empty
  | Chr code_unit
  | Class "code_unit \<Rightarrow> bool"
  | Seq regex regex
  | Alt regex regex
  | Star bool regex

text \<open>
  Backtracking matching at the head of a string: \<open>matches r s\<close> lists the remainders of
  \<open>s\<close> after each way \<open>r\<close> can match a prefix of it, in the order in which a
  backtracking matcher tries them. A greedy star tries another iteration before it tries to
  stop, a lazy star the other way round; an iteration that consumes nothing is rejected.
\<close>

function matches :: "regex \<Rightarrow> js_string \<Rightarrow> js_string list" where
  "matches Empty s = [s]"
| "matches (Chr c) s =
     (case s of [] \<Rightarrow> [] | x # xs \<Rightarrow> if canonicalize x = canonicalize c then [xs] else [])"
| "matches (Class p) s = (case s of [] \<Rightarrow> [] | x # xs \<Rightarrow> if p x then [xs] else [])"
| "matches (Seq a b) s = concat (map (matches b) (matches a s))"
| "matches (Alt a b) s = matches a s @ matches b s"
| "matches (Star greedy a) s =
     (let more = concat (map (\<lambda>s'. if length s' < length s then matches (Star greedy a) s' else [])
                             (matches a s))
      in if greedy then more @ [s] else s # more)"
  by pat_completeness auto
termination
  by (relation "measure size <*lex*> measure length") auto

definition lit :: "string \<Rightarrow> regex" where
  "lit s = foldr (\<lambda>c r. Seq (Chr (of_char c)) r) s Empty"

definition plus :: "regex \<Rightarrow> regex" where
  "plus r = Seq r (Star True r)"

text \<open>The length of the first match of \<open>r\<close> at the head of \<open>s\<close>, if there is one.\<close>

definition exec :: "regex \<Rightarrow> js_string \<Rightarrow> nat option" where
  "exec r s = (case matches r s of [] \<Rightarrow> None | s' # _ \<Rightarrow> Some (length s - length s'))"

text \<open>
  \<open>s.replace(/r/g, '')\<close>: scan from the left; where the pattern matches, drop the match
  and go on behind it; elsewhere keep the code unit and move on by one. An empty match
  replaces nothing and moves on by one.
\<close>

function replace_all :: "regex \<Rightarrow> js_string \<Rightarrow> js_string" where
  "replace_all r [] = []"
| "replace_all r (c # cs) =
     (case exec r (c # cs) of
        None \<Rightarrow> c # replace_all r cs
      | Some n \<Rightarrow> if n = 0 then c # replace_all r cs else replace_all r (drop n (c # cs)))"
  by pat_completeness auto
termination
  by (relation "measure (\<lambda>(r, s). length s)") auto

text \<open>The classes \<open>[\s\S]\<close>, \<open>\s\<close> and \<open>\w\<close>.\<close>

definition any_char :: "code_unit \<Rightarrow> bool" where
  "any_char c = True"

definition white_space :: "code_unit \<Rightarrow> bool" where
  "white_space c =
     (c \<in> set [0x9, 0xA, 0xB, 0xC, 0xD, 0x20, 0xA0, 0x1680, 0x2028, 0x2029, 0x202F, 0x205F,
               0x3000, 0xFEFF]
      \<or> (0x2000 \<le> c \<and> c \<le> 0x200A))"

definition word_char :: "code_unit \<Rightarrow> bool" where
  "word_char c =
     ((97 \<le> c \<and> c \<le> 122) \<or> (65 \<le> c \<and> c \<le> 90) \<or> (48 \<le> c \<and> c \<le> 57) \<or> c = 95)"

text \<open>\<^verbatim>\<open>/<script[\s\S]*?>[\s\S]*?<\/script>/gi\<close>\<close>

definition script_re :: regex where
  "script_re =
     Seq (lit ''<script'') (Seq (Star False (Class any_char)) (Seq (Chr 62)
       (Seq (Star False (Class any_char)) (lit ''</script>''))))"

text \<open>\<^verbatim>\<open>/on\w+\s*=\s*(?:"[^"]*"|'[^']*'|[^\s>]+)/gi\<close>
  (34 is the double quote, 39 the single quote, 61 the equals sign, 62 the greater-than sign)\<close>

definition handler_re :: regex where
  "handler_re =
     Seq (lit ''on'') (Seq (plus (Class word_char)) (Seq (Star True (Class white_space))
       (Seq (Chr 61) (Seq (Star True (Class white_space))
         (Alt (Seq (Chr 34) (Seq (Star True (Class (\<lambda>c. c \<noteq> 34))) (Chr 34)))
         (Alt (Seq (Chr 39) (Seq (Star True (Class (\<lambda>c. c \<noteq> 39))) (Chr 39)))
              (plus (Class (\<lambda>c. \<not> white_space c \<and> c \<noteq> 62)))))))))"

text \<open>\<^verbatim>\<open>/javascript:/gi\<close>\<close>

definition javascript_re :: regex where
  "javascript_re = lit ''javascript:''"

definition sanitizeString :: "js_string \<Rightarrow> js_string" where
  "sanitizeString s =
     replace_all javascript_re (replace_all handler_re (replace_all script_re s))"

section \<open>JavaScript values and the recursive sanitizer\<close>

text \<open>
  A number is its IEEE 754 binary64 bit pattern. Neither worker computes with numbers:
  they are passed on unchanged.
\<close>

type_synonym js_number = "64 word"

text \<open>
  An object is the list of its own enumerable string-keyed properties in the order
  \<open>Object.entries\<close> yields them.
\<close>

datatype jsval =
    JUndefined
  | JNull
  | JBool bool
  | JNumber js_number
  | JString js_string
  | JArray "jsval list"
  | JObject "(js_string \<times> jsval) list"

text \<open>
  \<open>out[k] = v\<close> on a plain object: an existing property keeps its place, a new one goes
  to the end. The key \<open>__proto__\<close> names the accessor inherited from the object prototype,
  so that assignment creates no property of the object itself.
\<close>

definition assign :: "js_string \<Rightarrow> jsval \<Rightarrow> (js_string \<times> jsval) list \<Rightarrow> (js_string \<times> jsval) list" where
  "assign k v out = (if k = js ''__proto__'' then out else AList.update k v out)"

fun sanitizeJsonStrings :: "jsval \<Rightarrow> jsval" where
  "sanitizeJsonStrings JNull = JNull"
| "sanitizeJsonStrings JUndefined = JUndefined"
| "sanitizeJsonStrings (JString s) = JString (sanitizeString s)"
| "sanitizeJsonStrings (JArray xs) = JArray (map sanitizeJsonStrings xs)"
| "sanitizeJsonStrings (JObject es) =
     JObject (fold (\<lambda>(k, v) out. assign k (sanitizeJsonStrings v) out) es [])"
| "sanitizeJsonStrings (JBool b) = JBool b"
| "sanitizeJsonStrings (JNumber n) = JNumber n"

section \<open>Requests, responses and the cache storage\<close>

text \<open>
  Header names are case-insensitive: a \<open>Headers\<close> object keeps them in lower case, and
  \<open>get\<close>, \<open>set\<close> and \<open>delete\<close> lower-case the name they are given. A header list is
  modelled by what \<open>get\<close> observes: a map from the lower-cased name to the value.
\<close>

type_synonym headers = "string \<rightharpoonup> string"

definition lowercase_char :: "char \<Rightarrow> char" where
  "lowercase_char c =
     (case map_of (zip ''ABCDEFGHIJKLMNOPQRSTUVWXYZ'' ''abcdefghijklmnopqrstuvwxyz'') c of
        Some l \<Rightarrow> l
      | None \<Rightarrow> c)"

definition lower :: "string \<Rightarrow> string" where
  "lower n = map lowercase_char n"

definition headers_get :: "headers \<Rightarrow> string \<Rightarrow> string option" where
  "headers_get h n = h (lower n)"

definition headers_set :: "string \<Rightarrow> string \<Rightarrow> headers \<Rightarrow> headers" where
  "headers_set n v h = h(lower n \<mapsto> v)"

definition headers_delete :: "string \<Rightarrow> headers \<Rightarrow> headers" where
  "headers_delete n h = h(lower n := None)"

text \<open>\<open>new Headers(obj)\<close> for an object literal, given by its entries.\<close>

definition new_Headers :: "(string \<times> string) list \<Rightarrow> headers" where
  "new_Headers entries = fold (\<lambda>(k, v) h. headers_set k v h) entries Map.empty"

text \<open>\<open>headers.get(n) || ''\<close>\<close>

definition get_or_empty :: "headers \<Rightarrow> string \<Rightarrow> string" where
  "get_or_empty h n = (case headers_get h n of None \<Rightarrow> [] | Some v \<Rightarrow> v)"

text \<open>\<open>String.prototype.startsWith\<close> and \<open>includes\<close>.\<close>

fun startsWith :: "'a list \<Rightarrow> 'a list \<Rightarrow> bool" where
  "startsWith s [] = True"
| "startsWith [] (p # ps) = False"
| "startsWith (c # cs) (p # ps) = (c = p \<and> startsWith cs ps)"

fun includes_str :: "'a list \<Rightarrow> 'a list \<Rightarrow> bool" where
  "includes_str [] p = (p = [])"
| "includes_str (c # cs) p = (startsWith (c # cs) p \<or> includes_str cs p)"

text \<open>
  A response is its status line, its headers and the bytes of its body; a response
  without a body has no bytes. The body of a response that has arrived is taken to be
  readable to its end.
\<close>

record response =
  status :: nat
  statusText :: string
  headers :: headers
  body :: string

definition ok :: "response \<Rightarrow> bool" where
  "ok r = (200 \<le> status r \<and> status r \<le> 299)"

datatype js_error = TypeError | RangeError | Error string | SyntaxError

text \<open>
  \<open>new Response(body, {status, statusText, headers})\<close>. The constructor throws a
  \<open>RangeError\<close> for a status outside 200 to 599, and a \<open>TypeError\<close> when a body is
  given together with a null-body status (101, 103, 204, 205 or 304). An \<open>ArrayBuffer\<close>
  and a string are bodies even when they are empty. Every status text the workers pass is
  one the constructor accepts: that of a response, or a constant.
\<close>

definition null_body_status :: "nat \<Rightarrow> bool" where
  "null_body_status s = (s = 101 \<or> s = 103 \<or> s = 204 \<or> s = 205 \<or> s = 304)"

definition new_Response :: "string option \<Rightarrow> nat \<Rightarrow> string \<Rightarrow> headers \<Rightarrow> js_error + response" where
  "new_Response b s t h =
     (if s < 200 \<or> 599 < s then Inl RangeError
      else if b \<noteq> None \<and> null_body_status s then Inl TypeError
      else Inr \<lparr>status = s, statusText = t, headers = h,
                body = (case b of None \<Rightarrow> [] | Some bytes \<Rightarrow> bytes)\<rparr>)"

text \<open>
  A URL string is represented by what the platform's parser makes of it: its
  serialization, origin and path, or the fact that \<open>new URL\<close> throws on it.
\<close>

record URL =
  href :: string
  origin :: string
  pathname :: string

datatype url = Parsed URL | Unparsable string

fun new_URL :: "url \<Rightarrow> js_error + URL" where
  "new_URL (Parsed u) = Inr u"
| "new_URL (Unparsable s) = Inl TypeError"

fun url_text :: "url \<Rightarrow> string" where
  "url_text (Parsed u) = href u"
| "url_text (Unparsable s) = s"

record request =
  "method" :: string
  url :: url
  mode :: string
  req_headers :: headers

text \<open>
  What \<open>await fetch(request)\<close> gives: a rejection, or a value, which both handlers of the
  security variant test for being empty before they use it.
\<close>

datatype fetched = Rejected js_error | Resolved "response option"

text \<open>
  The cache storage is the list of its named caches in the order \<open>caches.keys()\<close> lists
  them; a cache maps the URL of a GET request to the stored response.
\<close>

type_synonym cache = "string \<rightharpoonup> response"
type_synonym cache_storage = "(string \<times> cache) list"

definition caches_keys :: "cache_storage \<Rightarrow> string list" where
  "caches_keys st = map fst st"

definition caches_open :: "string \<Rightarrow> cache_storage \<Rightarrow> cache_storage" where
  "caches_open name st = (if name \<in> set (caches_keys st) then st else st @ [(name, Map.empty)])"

definition caches_delete :: "string \<Rightarrow> cache_storage \<Rightarrow> cache_storage" where
  "caches_delete name st = filter (\<lambda>(k, c). k \<noteq> name) st"

text \<open>\<open>cache.match(key)\<close> on the cache called \<open>name\<close>, for a key given as a URL.\<close>

definition cache_match_url :: "cache_storage \<Rightarrow> string \<Rightarrow> string \<Rightarrow> response option" where
  "cache_match_url st name key = (case map_of st name of None \<Rightarrow> None | Some c \<Rightarrow> c key)"

text \<open>\<open>cache.match(request)\<close>: only a GET request matches an entry.\<close>

definition cache_match :: "cache_storage \<Rightarrow> string \<Rightarrow> request \<Rightarrow> response option" where
  "cache_match st name req =
     (if method req = ''GET'' then cache_match_url st name (url_text (url req)) else None)"

text \<open>A \<open>cache.put\<close> that the platform accepts.\<close>

definition cache_put :: "string \<Rightarrow> string \<Rightarrow> response \<Rightarrow> cache_storage \<Rightarrow> cache_storage" where
  "cache_put name key r st = map (\<lambda>(k, c). if k = name then (k, c(key \<mapsto> r)) else (k, c)) st"

text \<open>\<open>caches.match(key)\<close> on the whole storage: the first cache that has the key answers.\<close>

fun caches_match_url :: "cache_storage \<Rightarrow> string \<Rightarrow> response option" where
  "caches_match_url [] key = None"
| "caches_match_url ((k, c) # st) key =
     (case c key of Some r \<Rightarrow> Some r | None \<Rightarrow> caches_match_url st key)"

definition caches_match :: "cache_storage \<Rightarrow> request \<Rightarrow> response option" where
  "caches_match st req =
     (if method req = ''GET'' then caches_match_url st (url_text (url req)) else None)"

section \<open>The security variant (service-worker.js)\<close>

definition CACHE_NAME :: string where
  "CACHE_NAME = ''arminos-static-v1''"

definition SECURITY_HEADERS :: "(string \<times> string) list" where
  "SECURITY_HEADERS =
     [(''Content-Security-Policy'',
       ''default-src 'self'; script-src 'self'; object-src 'none'; base-uri 'self'; frame-ancestors 'none';''),
      (''X-Content-Type-Options'', ''nosniff''),
      (''X-Frame-Options'', ''DENY''),
      (''Referrer-Policy'', ''no-referrer''),
      (''Strict-Transport-Security'', ''max-age=63072000; includeSubDomains; preload'')]"

text \<open>The install listener: \<open>skipWaiting\<close>, then \<open>caches.open(CACHE_NAME)\<close>.\<close>

definition install :: "cache_storage \<Rightarrow> cache_storage" where
  "install st = caches_open CACHE_NAME st"

text \<open>The activate listener: claim the clients, then delete every key that is not
  \<open>CACHE_NAME\<close>.\<close>

definition activate :: "cache_storage \<Rightarrow> cache_storage" where
  "activate st = fold caches_delete (filter (\<lambda>k. k \<noteq> CACHE_NAME) (caches_keys st)) st"

text \<open>\<open>ALLOWED_ORIGIN\<close> is \<open>self.location.origin\<close>; it is a parameter of what uses it.\<close>

definition isSameOrigin :: "string \<Rightarrow> request \<Rightarrow> bool" where
  "isSameOrigin ALLOWED_ORIGIN req =
     (case new_URL (url req) of Inr u \<Rightarrow> origin u = ALLOWED_ORIGIN | Inl e \<Rightarrow> False)"

text \<open>\<open>Object.entries(SECURITY_HEADERS).forEach(([k, v]) => h.set(k, v))\<close>\<close>

definition set_security_headers :: "headers \<Rightarrow> headers" where
  "set_security_headers h = fold (\<lambda>(k, v) h'. headers_set k v h') SECURITY_HEADERS h"

text \<open>
  \<open>addSecurityHeadersToResponse\<close>: the body handed to the constructor is the
  \<open>ArrayBuffer\<close> of the response, so the function throws what the constructor throws.
\<close>

definition addSecurityHeadersToResponse :: "response option \<Rightarrow> js_error + response option" where
  "addSecurityHeadersToResponse response =
     (case response of
        None \<Rightarrow> Inr None
      | Some r \<Rightarrow>
          (case new_Response (Some (body r)) (status r) (statusText r)
                  (headers_delete ''Server'' (set_security_headers (headers r))) of
             Inl e \<Rightarrow> Inl e
           | Inr r' \<Rightarrow> Inr (Some r')))"

text \<open>The synthesized offline page of the navigation handler; the constructor accepts
  its status 503.\<close>

definition offline_response :: response where
  "offline_response =
     \<lparr>status = 503, statusText = ''Service Unavailable'',
      headers = new_Headers ((''Content-Type'', ''text/html'') # SECURITY_HEADERS),
      body = ''<h1>Offline</h1>''\<rparr>"

text \<open>
  A handler returns what its promise settles to (a rejection, or the value handed to
  \<open>respondWith\<close>, which may be empty) together with the cache storage it leaves. It is
  run on its own: no other handler changes the storage in between.
  \<open>'/offline.html'\<close> is an absolute path, so the key it names is the worker's origin
  followed by that path.
\<close>

type_synonym outcome = "(js_error + response option) \<times> cache_storage"

definition handleNavigationRequest :: "string \<Rightarrow> cache_storage \<Rightarrow> fetched \<Rightarrow> outcome" where
  "handleNavigationRequest ALLOWED_ORIGIN st net =
     (case (case net of
              Rejected err \<Rightarrow> Inl err
            | Resolved None \<Rightarrow> Inl (Error ''Empty network response'')
            | Resolved (Some networkResponse) \<Rightarrow>
                if status networkResponse \<ge> 500 then Inl (Error ''Server error'')
                else addSecurityHeadersToResponse (Some networkResponse)) of
        Inr res \<Rightarrow> (Inr res, st)
      | Inl err \<Rightarrow>
          (let st1 = caches_open CACHE_NAME st in
           case cache_match_url st1 CACHE_NAME (ALLOWED_ORIGIN @ ''/offline.html'') of
             Some cached \<Rightarrow> (addSecurityHeadersToResponse (Some cached), st1)
           | None \<Rightarrow> (Inr (Some offline_response), st1)))"

text \<open>
  The synthesized answer of the calendar handler's \<open>catch\<close>. Its body is
  \<open>JSON.stringify({error: 'Network error'})\<close>, a constant; the constructor accepts its
  status 502.
\<close>

definition network_error_response :: response where
  \<open>network_error_response =
     \<lparr>status = 502, statusText = [],
      headers = new_Headers ((''Content-Type'', ''application/json'') # SECURITY_HEADERS),
      body = ''{"error":"Network error"}''\<rparr>\<close>

text \<open>
  \<open>handleApiCalendar\<close>. Besides the outcome of \<open>fetch\<close> it depends on two things of the
  platform: \<open>json_result\<close>, what \<open>await resp.json()\<close> gives for the fetched response (a
  rejection when the body is not JSON), and \<open>stringify\<close>, the bytes of a response body
  built from the text \<open>JSON.stringify\<close> gives for a value. \<open>JSON.stringify(undefined)\<close>
  is \<open>undefined\<close>, which is no body. Whatever the \<open>try\<close> block throws, a failed
  fetch, a body that is not JSON or a constructor that refuses, ends in the \<open>catch\<close>.
  The handler never touches the cache storage.
\<close>

definition json_body :: "(jsval \<Rightarrow> string) \<Rightarrow> jsval \<Rightarrow> string option" where
  "json_body stringify v = (if v = JUndefined then None else Some (stringify v))"

definition handleApiCalendar ::
  "(jsval \<Rightarrow> string) \<Rightarrow> cache_storage \<Rightarrow> fetched \<Rightarrow> js_error + jsval \<Rightarrow> outcome" where
  "handleApiCalendar stringify st net json_result =
     (case net of
        Rejected err \<Rightarrow> (Inr (Some network_error_response), st)
      | Resolved None \<Rightarrow> (Inr None, st)
      | Resolved (Some resp) \<Rightarrow>
          (case (if includes_str (get_or_empty (headers resp) ''Content-Type'') ''application/json''
                 then
                   (case json_result of
                      Inl err \<Rightarrow> Inl err
                    | Inr json \<Rightarrow>
                        (case new_Response (json_body stringify (sanitizeJsonStrings json))
                                (status resp) (statusText resp)
                                (set_security_headers (headers resp)) of
                           Inl err \<Rightarrow> Inl err
                         | Inr r' \<Rightarrow> Inr (Some r')))
                 else addSecurityHeadersToResponse (Some resp)) of
             Inl err \<Rightarrow> (Inr (Some network_error_response), st)
           | Inr res \<Rightarrow> (Inr res, st)))"

text \<open>
  \<open>networkFirstWithSecurity\<close>. The \<open>cache.put\<close> is not awaited and its rejection is
  swallowed; \<open>put_ok\<close> says whether the platform accepts the write, which is then taken to
  have happened before the handler goes on. \<open>catch_block\<close> is the \<open>catch\<close> of the
  handler: it is entered with what the \<open>try\<close> block threw, a failed fetch or a
  constructor that refuses, and what it throws itself rejects the handler.
\<close>

definition catch_block :: "cache_storage \<Rightarrow> request \<Rightarrow> js_error \<Rightarrow> outcome" where
  "catch_block st request err =
     (case cache_match st CACHE_NAME request of
        Some cached \<Rightarrow> (addSecurityHeadersToResponse (Some cached), st)
      | None \<Rightarrow> (Inl err, st))"

definition networkFirstWithSecurity :: "cache_storage \<Rightarrow> fetched \<Rightarrow> bool \<Rightarrow> request \<Rightarrow> outcome" where
  "networkFirstWithSecurity st net put_ok request =
     (let st1 = caches_open CACHE_NAME st in
      case net of
        Rejected err \<Rightarrow> catch_block st1 request err
      | Resolved response \<Rightarrow>
          (let not_ok =
             (case cache_match st1 CACHE_NAME request of
                Some cached \<Rightarrow>
                  (case addSecurityHeadersToResponse (Some cached) of
                     Inl err \<Rightarrow> catch_block st1 request err
                   | Inr res \<Rightarrow> (Inr res, st1))
              | None \<Rightarrow> (Inr response, st1))
           in case response of
                None \<Rightarrow> not_ok
              | Some r \<Rightarrow>
                  if ok r then
                    (let st2 = (if put_ok then cache_put CACHE_NAME (url_text (url request)) r st1
                                else st1)
                     in case addSecurityHeadersToResponse (Some r) of
                          Inl err \<Rightarrow> catch_block st2 request err
                        | Inr res \<Rightarrow> (Inr res, st2))
                  else not_ok))"

text \<open>
  The fetch listener either leaves the request to the browser or calls \<open>respondWith\<close>
  with the promise of one of the three handlers.
\<close>

datatype handler = Navigation | ApiCalendar | NetworkFirst

datatype dispatch = NotIntercepted | RespondWith handler "js_error + response option"

definition respond :: "handler \<Rightarrow> outcome \<Rightarrow> dispatch \<times> cache_storage" where
  "respond h out = (RespondWith h (fst out), snd out)"

definition fetch_listener ::
  "string \<Rightarrow> (jsval \<Rightarrow> string) \<Rightarrow> cache_storage \<Rightarrow> fetched \<Rightarrow> js_error + jsval \<Rightarrow> bool
   \<Rightarrow> request \<Rightarrow> dispatch \<times> cache_storage" where
  "fetch_listener ALLOWED_ORIGIN stringify st net json_result put_ok req =
     (if method req \<noteq> ''GET'' \<or> \<not> isSameOrigin ALLOWED_ORIGIN req then (NotIntercepted, st)
      else if mode req = ''navigate'' \<or> includes_str (get_or_empty (req_headers req) ''accept'') ''text/html''
      then respond Navigation (handleNavigationRequest ALLOWED_ORIGIN st net)
      else
        (case new_URL (url req) of
           Inr u \<Rightarrow>
             if startsWith (pathname u) ''/api/calendar''
             then respond ApiCalendar (handleApiCalendar stringify st net json_result)
             else respond NetworkFirst (networkFirstWithSecurity st net put_ok req)
         | Inl e \<Rightarrow> respond NetworkFirst (networkFirstWithSecurity st net put_ok req)))"

subsection \<open>The message listener\<close>

text \<open>
  \<open>event.source\<close> is absent, or an object without \<open>url\<close> (a message port, another
  worker), or a client with its URL.
\<close>

datatype event_source = NoSource | SourceWithoutUrl | Client url

record message_event =
  data :: jsval
  source :: event_source

text \<open>\<open>!v\<close> and \<open>typeof v\<close>. A number is falsy when it is zero or not a number.\<close>

definition is_nan :: "js_number \<Rightarrow> bool" where
  "is_nan n = (n AND 0x7FF0000000000000 = 0x7FF0000000000000 \<and> n AND 0x000FFFFFFFFFFFFF \<noteq> 0)"

fun falsy :: "jsval \<Rightarrow> bool" where
  "falsy JUndefined = True"
| "falsy JNull = True"
| "falsy (JBool b) = (\<not> b)"
| "falsy (JNumber n) = (n = 0 \<or> n = 0x8000000000000000 \<or> is_nan n)"
| "falsy (JString s) = (s = [])"
| "falsy (JArray xs) = False"
| "falsy (JObject es) = False"

fun typeof :: "jsval \<Rightarrow> string" where
  "typeof JUndefined = ''undefined''"
| "typeof JNull = ''object''"
| "typeof (JBool b) = ''boolean''"
| "typeof (JNumber n) = ''number''"
| "typeof (JString s) = ''string''"
| "typeof (JArray xs) = ''object''"
| "typeof (JObject es) = ''object''"

text \<open>
  \<open>v.name\<close> for the names \<open>type\<close> and \<open>projectId\<close>: reading a property of
  \<open>undefined\<close> or \<open>null\<close> throws; an object gives its own property or \<open>undefined\<close>;
  no other value has a property of either name.
\<close>

fun get_property :: "jsval \<Rightarrow> string \<Rightarrow> js_error + jsval" where
  "get_property JUndefined name = Inl TypeError"
| "get_property JNull name = Inl TypeError"
| "get_property (JObject es) name =
     (case map_of es (js name) of Some v \<Rightarrow> Inr v | None \<Rightarrow> Inr JUndefined)"
| "get_property v name = Inr JUndefined"

text \<open>
  What the listener does to the outside is the list of messages it posts: to one of the
  window clients that \<open>clients.matchAll\<close> lists, or back to the sender.
\<close>

datatype target = ToClient nat | ToSender

type_synonym effect = "target \<times> jsval"

definition confirm_delete :: "jsval \<Rightarrow> jsval" where
  "confirm_delete projectId =
     JObject [(js ''type'', JString (js ''CONFIRM_DELETE'')),
              (js ''payload'', JObject [(js ''projectId'', projectId)])]"

definition health_ok :: jsval where
  "health_ok =
     JObject [(js ''type'', JString (js ''SW_HEALTH_OK'')), (js ''version'', JString (js CACHE_NAME))]"

text \<open>The body of the listener's \<open>try\<close> block; \<open>clients\<close> is what \<open>matchAll\<close> lists.\<close>

definition message_body :: "string \<Rightarrow> nat list \<Rightarrow> message_event \<Rightarrow> js_error + effect list" where
  "message_body ALLOWED_ORIGIN clients event =
     (case source event of
        NoSource \<Rightarrow> Inr []
      | SourceWithoutUrl \<Rightarrow> Inr []
      | Client src_url \<Rightarrow>
          if url_text src_url = [] then Inr []
          else
            (case new_URL src_url of
               Inl e \<Rightarrow> Inl e
             | Inr u \<Rightarrow>
                 if origin u \<noteq> ALLOWED_ORIGIN then Inr []
                 else if falsy (data event) \<or> typeof (data event) \<noteq> ''object'' then Inr []
                 else
                   (case get_property (data event) ''type'' of
                      Inl e \<Rightarrow> Inl e
                    | Inr type \<Rightarrow>
                        (case (if type = JString (js ''CONFIRM_DELETE'')
                               then (case get_property (data event) ''projectId'' of
                                       Inl e \<Rightarrow> Inl e
                                     | Inr projectId \<Rightarrow>
                                         Inr (map (\<lambda>client. (ToClient client, confirm_delete projectId))
                                                  clients))
                               else Inr []) of
                           Inl e \<Rightarrow> Inl e
                         | Inr broadcast \<Rightarrow>
                             Inr (broadcast
                                  @ (if type = JString (js ''SW_HEALTH_CHECK'')
                                     then [(ToSender, health_ok)] else []))))))"

text \<open>The listener: the \<open>catch\<close> swallows whatever the body throws.\<close>

definition message_listener :: "string \<Rightarrow> nat list \<Rightarrow> message_event \<Rightarrow> effect list" where
  "message_listener ALLOWED_ORIGIN clients event =
     (case message_body ALLOWED_ORIGIN clients event of Inl e \<Rightarrow> [] | Inr effects \<Rightarrow> effects)"

section \<open>The cache-first variant (PlanOS service worker)\<close>

definition pwa_CACHE_NAME :: string where
  "pwa_CACHE_NAME = ''planos-pwa-v1''"

definition ASSETS :: "string list" where
  "ASSETS =
     [''./'', ''./index.html'', ''./manifest.webmanifest'', ''./icons/icon-192.png'',
      ''./icons/icon-512.png'', ''./fonts/IRANSansX-Light.woff2'',
      ''./fonts/IRANSansX-Medium.woff2'', ''./fonts/IRANSansX-DemiBold.woff2'',
      ''./fonts/IRANSansX-Bold.woff2'', ''./fonts/IRANSansX-ExtraBold.woff2'']"

text \<open>
  Every relative URL of this worker starts with \<open>./\<close>; it names the URL made of the
  directory of the worker's script, \<open>base\<close>, and what follows the \<open>./\<close>.
\<close>

definition resolve :: "string \<Rightarrow> string \<Rightarrow> string" where
  "resolve base rel = base @ drop 2 rel"

text \<open>
  \<open>cache.addAll(ASSETS)\<close> fetches every asset and stores all of them or none: it rejects
  when a fetch fails or answers with a status that is not ok. \<open>fetch_asset\<close> gives the
  outcome of the fetch of each URL.
\<close>

fun fetch_all :: "(string \<Rightarrow> fetched) \<Rightarrow> string list \<Rightarrow> js_error + (string \<times> response) list" where
  "fetch_all fetch_asset [] = Inr []"
| "fetch_all fetch_asset (u # us) =
     (case fetch_asset u of
        Rejected e \<Rightarrow> Inl e
      | Resolved None \<Rightarrow> Inl TypeError
      | Resolved (Some r) \<Rightarrow>
          if ok r then
            (case fetch_all fetch_asset us of Inl e \<Rightarrow> Inl e | Inr rs \<Rightarrow> Inr ((u, r) # rs))
          else Inl TypeError)"

text \<open>
  The install listener: open the cache, add all assets, then \<open>skipWaiting\<close>. A rejection
  fails the installation; the cache it has opened stays.
\<close>

definition pwa_install ::
  "string \<Rightarrow> (string \<Rightarrow> fetched) \<Rightarrow> cache_storage \<Rightarrow> js_error option \<times> cache_storage" where
  "pwa_install base fetch_asset st =
     (let st1 = caches_open pwa_CACHE_NAME st in
      case fetch_all fetch_asset (map (resolve base) ASSETS) of
        Inl e \<Rightarrow> (Some e, st1)
      | Inr rs \<Rightarrow> (None, fold (\<lambda>(u, r) s. cache_put pwa_CACHE_NAME u r s) rs st1))"

text \<open>The activate listener: delete every key that is not \<open>CACHE_NAME\<close>, then claim the
  clients.\<close>

definition pwa_activate :: "cache_storage \<Rightarrow> cache_storage" where
  "pwa_activate st =
     fold (\<lambda>k s. if k = pwa_CACHE_NAME then s else caches_delete k s) (caches_keys st) st"

text \<open>
  The fetch listener always calls \<open>respondWith\<close>. \<open>self_origin\<close> is
  \<open>self.location.origin\<close>. The \<open>cache.put\<close> is not awaited; \<open>put_ok\<close> says whether
  the platform accepts it. When the fetch is rejected, \<open>.catch(() => cached)\<close> fulfils the
  promise with \<open>cached\<close>, which is \<open>undefined\<close> on this path.
\<close>

definition pwa_fetch_listener ::
  "string \<Rightarrow> string \<Rightarrow> cache_storage \<Rightarrow> fetched \<Rightarrow> bool \<Rightarrow> request \<Rightarrow> outcome" where
  "pwa_fetch_listener self_origin base st net put_ok req =
     (if mode req = ''navigate'' then
        (case caches_match_url st (resolve base ''./index.html'') of
           Some cached \<Rightarrow> (Inr (Some cached), st)
         | None \<Rightarrow> (case net of Rejected e \<Rightarrow> (Inl e, st) | Resolved res \<Rightarrow> (Inr res, st)))
      else
        (case caches_match st req of
           Some cached \<Rightarrow> (Inr (Some cached), st)
         | None \<Rightarrow>
             (case net of
                Rejected e \<Rightarrow> (Inr None, st)
              | Resolved res \<Rightarrow>
                  (Inr res,
                   case new_URL (url req) of
                     Inl e \<Rightarrow> st
                   | Inr u \<Rightarrow>
                       if method req = ''GET'' \<and> origin u = self_origin then
                         (case res of
                            None \<Rightarrow> st
                          | Some r \<Rightarrow>
                              (let st1 = caches_open pwa_CACHE_NAME st in
                               if put_ok then cache_put pwa_CACHE_NAME (url_text (url req)) r st1
                               else st1))
                       else st))))"

section \<open>Notions the properties are stated with\<close>

text \<open>A response carries every entry of the Security Header Set.\<close>

definition hardened :: "response \<Rightarrow> bool" where
  "hardened r = list_all (\<lambda>(k, v). headers_get (headers r) k = Some v) SECURITY_HEADERS"

text \<open>A response that \<open>new Response\<close> builds again with its body: its status lies in
  200 to 599 and is no null-body status.\<close>

definition rebuildable :: "response \<Rightarrow> bool" where
  "rebuildable r = (200 \<le> status r \<and> status r \<le> 599 \<and> \<not> null_body_status (status r))"

text \<open>The copy of a response with the Security Header Set applied and \<open>Server\<close>
  removed.\<close>

definition hardened_copy :: "response \<Rightarrow> response" where
  "hardened_copy r =
     \<lparr>status = status r, statusText = statusText r,
      headers = headers_delete ''Server'' (set_security_headers (headers r)), body = body r\<rparr>"

text \<open>
  The walk over a JSON value as the specification words it: objects and ordered sequences
  are walked recursively, the sanitizer is applied to every string, every other leaf passes
  unchanged.
\<close>

fun sanitizeJson_spec :: "jsval \<Rightarrow> jsval" where
  "sanitizeJson_spec (JString s) = JString (sanitizeString s)"
| "sanitizeJson_spec (JArray xs) = JArray (map sanitizeJson_spec xs)"
| "sanitizeJson_spec (JObject es) = JObject (map (\<lambda>(k, v). (k, sanitizeJson_spec v)) es)"
| "sanitizeJson_spec v = v"

text \<open>The value without its fields named \<open>__proto__\<close>, at every depth.\<close>

fun without_proto :: "jsval \<Rightarrow> jsval" where
  "without_proto (JArray xs) = JArray (map without_proto xs)"
| "without_proto (JObject es) =
     JObject (map (\<lambda>(k, v). (k, without_proto v)) (filter (\<lambda>(k, v). k \<noteq> js ''__proto__'') es))"
| "without_proto v = v"

text \<open>No object of the value has a field named \<open>__proto__\<close>.\<close>

fun no_proto :: "jsval \<Rightarrow> bool" where
  "no_proto (JArray xs) = list_all no_proto xs"
| "no_proto (JObject es) = list_all (\<lambda>(k, v). k \<noteq> js ''__proto__'' \<and> no_proto v) es"
| "no_proto v = True"

text \<open>No object of the value lists a key twice, as it is for every value that
  \<open>JSON.parse\<close> gives.\<close>

fun distinct_keys :: "jsval \<Rightarrow> bool" where
  "distinct_keys (JArray xs) = list_all distinct_keys xs"
| "distinct_keys (JObject es) = (distinct (map fst es) \<and> list_all (\<lambda>(k, v). distinct_keys v) es)"
| "distinct_keys v = True"

text \<open>The names of the Security Header Set, as a header list keeps them.\<close>

definition security_header_names :: "string list" where
  "security_header_names = map (\<lambda>(k, v). lower k) SECURITY_HEADERS"

text \<open>The classification of a request: a navigation or a request that accepts HTML;
  a request whose path starts with the prefix of the sensitive API.\<close>

definition isNavigation :: "request \<Rightarrow> bool" where
  "isNavigation req =
     (mode req = ''navigate'' \<or> includes_str (get_or_empty (req_headers req) ''accept'') ''text/html'')"

definition isSensitiveApiPath :: "string \<Rightarrow> request \<Rightarrow> bool" where
  "isSensitiveApiPath prefix req =
     (case url req of Parsed u \<Rightarrow> startsWith (pathname u) prefix | Unparsable s \<Rightarrow> False)"

text \<open>The sender of a message is a client whose URL has the worker's own origin.\<close>

definition same_origin_sender :: "string \<Rightarrow> event_source \<Rightarrow> bool" where
  "same_origin_sender ALLOWED_ORIGIN src =
     (case src of
        Client (Parsed u) \<Rightarrow> href u \<noteq> [] \<and> origin u = ALLOWED_ORIGIN
      | _ \<Rightarrow> False)"

text \<open>The data of a message is an object: what passes \<open>!data || typeof data !== 'object'\<close>.\<close>

definition is_object :: "jsval \<Rightarrow> bool" where
  "is_object v = (case v of JArray xs \<Rightarrow> True | JObject es \<Rightarrow> True | _ \<Rightarrow> False)"

text \<open>Sample values: an origin, requests to it, and responses of a server.\<close>

definition app_origin :: string where
  "app_origin = ''https://app.example''"

definition get_request :: "string \<Rightarrow> string \<Rightarrow> request" where
  "get_request m path =
     \<lparr>method = ''GET'',
      url = Parsed \<lparr>href = app_origin @ path, origin = app_origin, pathname = path\<rparr>,
      mode = m, req_headers = Map.empty\<rparr>"

definition server_response :: "nat \<Rightarrow> string \<Rightarrow> string \<Rightarrow> response" where
  "server_response code content_type bytes =
     \<lparr>status = code, statusText = [],
      headers = new_Headers [(''Content-Type'', content_type), (''Server'', ''nginx''),
                             (''X-Frame-Options'', ''SAMEORIGIN'')],
      body = bytes\<rparr>"

text \<open>
  The serialization of the platform as far as the samples need it: the one value that a
  sample serializes, with its JSON text.
\<close>

definition sample_stringify :: "jsval \<Rightarrow> string" where
  \<open>sample_stringify v =
     (if v = JObject [(js ''events'', JArray [JObject [(js ''title'', JString (js ''hello''))]])]
      then ''{"events":[{"title":"hello"}]}'' else [])\<close>

section \<open>Facts about headers and the cache storage\<close>

lemma lower_simps:
  "lower ''Content-Security-Policy'' = ''content-security-policy''"
  "lower ''X-Content-Type-Options'' = ''x-content-type-options''"
  "lower ''X-Frame-Options'' = ''x-frame-options''"
  "lower ''Referrer-Policy'' = ''referrer-policy''"
  "lower ''Strict-Transport-Security'' = ''strict-transport-security''"
  "lower ''Server'' = ''server''"
  "lower ''Content-Type'' = ''content-type''"
  "lower ''accept'' = ''accept''"
  by (simp_all add: lower_def lowercase_char_def)

lemma set_security_headers_apply:
  "set_security_headers h n =
     (if n = ''content-security-policy'' then Some (snd (SECURITY_HEADERS ! 0))
      else if n = ''x-content-type-options'' then Some ''nosniff''
      else if n = ''x-frame-options'' then Some ''DENY''
      else if n = ''referrer-policy'' then Some ''no-referrer''
      else if n = ''strict-transport-security'' then Some ''max-age=63072000; includeSubDomains; preload''
      else h n)"
  by (simp add: set_security_headers_def SECURITY_HEADERS_def headers_set_def lower_simps)

lemma hardened_iff:
  "hardened r \<longleftrightarrow>
     headers r ''content-security-policy'' = Some (snd (SECURITY_HEADERS ! 0))
     \<and> headers r ''x-content-type-options'' = Some ''nosniff''
     \<and> headers r ''x-frame-options'' = Some ''DENY''
     \<and> headers r ''referrer-policy'' = Some ''no-referrer''
     \<and> headers r ''strict-transport-security'' = Some ''max-age=63072000; includeSubDomains; preload''"
  by (simp add: hardened_def SECURITY_HEADERS_def headers_get_def lower_simps)

lemma new_Response_Inr:
  "new_Response b s t h = Inr r'
   \<Longrightarrow> status r' = s \<and> statusText r' = t \<and> headers r' = h
       \<and> body r' = (case b of None \<Rightarrow> [] | Some bytes \<Rightarrow> bytes)"
  by (auto simp add: new_Response_def split: if_splits)

lemma add_Some:
  "rebuildable r \<Longrightarrow> addSecurityHeadersToResponse (Some r) = Inr (Some (hardened_copy r))"
  by (simp add: addSecurityHeadersToResponse_def new_Response_def rebuildable_def hardened_copy_def)

lemma add_fails:
  "\<not> rebuildable r
   \<Longrightarrow> addSecurityHeadersToResponse (Some r)
       = Inl (if status r < 200 \<or> 599 < status r then RangeError else TypeError)"
  by (auto simp add: addSecurityHeadersToResponse_def new_Response_def rebuildable_def)

lemma add_cases:
  "addSecurityHeadersToResponse (Some r) = Inr res \<Longrightarrow> rebuildable r \<and> res = Some (hardened_copy r)"
  by (cases "rebuildable r") (simp_all add: add_Some add_fails)

lemma hardened_add: "hardened (hardened_copy r)"
  by (simp add: hardened_iff hardened_copy_def headers_delete_def set_security_headers_apply
      lower_simps)

lemma hardened_copy_sel:
  "status (hardened_copy r) = status r"
  "statusText (hardened_copy r) = statusText r"
  "body (hardened_copy r) = body r"
  "headers (hardened_copy r) = headers_delete ''Server'' (set_security_headers (headers r))"
  by (simp_all add: hardened_copy_def)

lemma hardened_set:
  "hardened \<lparr>status = s, statusText = t, headers = set_security_headers h, body = b\<rparr>"
  by (simp add: hardened_iff set_security_headers_apply)

lemma hardened_headers: "headers r = set_security_headers h \<Longrightarrow> hardened r"
  by (simp add: hardened_iff set_security_headers_apply)

lemma new_Headers_security:
  "new_Headers (e # SECURITY_HEADERS) = set_security_headers (new_Headers [e])"
  by (simp add: new_Headers_def set_security_headers_def)

lemma hardened_network_error_response: "hardened network_error_response"
  by (simp add: network_error_response_def new_Headers_security hardened_set)

lemma hardened_offline_response: "hardened offline_response"
  by (simp add: offline_response_def new_Headers_security hardened_set)

lemma cache_match_url_open:
  "cache_match_url (caches_open name st) k key = cache_match_url st k key"
proof (cases "name \<in> set (caches_keys st)")
  case True
  then show ?thesis by (simp add: caches_open_def)
next
  case False
  then have "map_of st name = None"
    by (simp add: caches_keys_def map_of_eq_None_iff)
  with False show ?thesis
    by (auto simp add: cache_match_url_def caches_open_def map_add_def split: option.splits)
qed

lemma cache_match_open:
  "cache_match (caches_open name st) k req = cache_match st k req"
  by (simp add: cache_match_def cache_match_url_open)

lemma open_has_key: "name \<in> set (caches_keys (caches_open name st))"
  by (simp add: caches_open_def caches_keys_def)

lemma cache_match_url_put:
  "name \<in> set (caches_keys st) \<Longrightarrow> cache_match_url (cache_put name key r st) name key = Some r"
  by (induction st) (auto simp add: cache_match_url_def cache_put_def caches_keys_def)

lemma keys_fold_delete:
  "caches_keys (fold caches_delete ks st) = filter (\<lambda>k. k \<notin> set ks) (caches_keys st)"
proof (induction ks arbitrary: st)
  case Nil
  then show ?case by simp
next
  case (Cons k ks)
  have "caches_keys (caches_delete k st) = filter (\<lambda>x. x \<noteq> k) (caches_keys st)"
    by (induction st) (auto simp add: caches_delete_def caches_keys_def)
  with Cons show ?case by (simp add: conj_commute)
qed

lemma keys_activate: "caches_keys (activate st) = filter (\<lambda>k. k = CACHE_NAME) (caches_keys st)"
  unfolding activate_def keys_fold_delete
  by (rule filter_cong) auto

lemma fold_skip:
  "fold (\<lambda>k s. if k = n then s else caches_delete k s) ks st = fold caches_delete (filter (\<lambda>k. k \<noteq> n) ks) st"
  by (induction ks arbitrary: st) auto

lemma keys_pwa_activate:
  "caches_keys (pwa_activate st) = filter (\<lambda>k. k = pwa_CACHE_NAME) (caches_keys st)"
  unfolding pwa_activate_def fold_skip keys_fold_delete
  by (rule filter_cong) auto

lemma keys_cache_put: "caches_keys (cache_put n key r st) = caches_keys st"
  by (induction st) (auto simp add: cache_put_def caches_keys_def)

lemma keys_fold_put:
  "caches_keys (fold (\<lambda>(u, r) s. cache_put n u r s) rs st) = caches_keys st"
  by (induction rs arbitrary: st) (auto simp add: keys_cache_put)

lemma singleton_filter:
  "n \<in> set ks \<Longrightarrow> set (filter (\<lambda>k. k = n) ks) = {n}"
  by auto

lemma fetch_all_ok:
  "(\<And>u. \<exists>r. fetch_asset u = Resolved (Some r) \<and> ok r) \<Longrightarrow> \<exists>rs. fetch_all fetch_asset us = Inr rs"
proof (induction us)
  case Nil
  then show ?case by simp
next
  case (Cons u us)
  from Cons.prems obtain r where r: "fetch_asset u = Resolved (Some r)" "ok r" by blast
  from Cons.IH Cons.prems obtain rs where "fetch_all fetch_asset us = Inr rs" by blast
  with r show ?case by simp
qed

text \<open>The four branches of the fetch listener.\<close>

lemma fetch_listener_pass:
  "method req \<noteq> ''GET'' \<or> \<not> isSameOrigin A req
   \<Longrightarrow> fetch_listener A sf st net jr po req = (NotIntercepted, st)"
  by (auto simp add: fetch_listener_def)

lemma fetch_listener_navigation:
  "method req = ''GET'' \<Longrightarrow> isSameOrigin A req \<Longrightarrow> isNavigation req
   \<Longrightarrow> fetch_listener A sf st net jr po req = respond Navigation (handleNavigationRequest A st net)"
  by (auto simp add: fetch_listener_def isNavigation_def)

lemma fetch_listener_api:
  "method req = ''GET'' \<Longrightarrow> isSameOrigin A req \<Longrightarrow> \<not> isNavigation req
   \<Longrightarrow> isSensitiveApiPath ''/api/calendar'' req
   \<Longrightarrow> fetch_listener A sf st net jr po req = respond ApiCalendar (handleApiCalendar sf st net jr)"
  by (cases "url req") (auto simp add: fetch_listener_def isNavigation_def isSensitiveApiPath_def)

lemma fetch_listener_default:
  "method req = ''GET'' \<Longrightarrow> isSameOrigin A req \<Longrightarrow> \<not> isNavigation req
   \<Longrightarrow> \<not> isSensitiveApiPath ''/api/calendar'' req
   \<Longrightarrow> fetch_listener A sf st net jr po req
       = respond NetworkFirst (networkFirstWithSecurity st net po req)"
  by (cases "url req") (auto simp add: fetch_listener_def isNavigation_def isSensitiveApiPath_def)

text \<open>The default handler and the calendar handler, case by case.\<close>

lemma catch_block_cached:
  "cache_match st CACHE_NAME req = Some cached
   \<Longrightarrow> catch_block st req err = (addSecurityHeadersToResponse (Some cached), st)"
  by (simp add: catch_block_def)

lemma network_first_ok:
  "ok r \<Longrightarrow> rebuildable r
   \<Longrightarrow> networkFirstWithSecurity st (Resolved (Some r)) put_ok req =
       (Inr (Some (hardened_copy r)),
        if put_ok then cache_put CACHE_NAME (url_text (url req)) r (caches_open CACHE_NAME st)
        else caches_open CACHE_NAME st)"
  by (simp add: networkFirstWithSecurity_def Let_def add_Some)

lemma network_first_not_ok:
  "\<not> ok r \<Longrightarrow> networkFirstWithSecurity st (Resolved (Some r)) put_ok req =
     ((case cache_match st CACHE_NAME req of
         Some cached \<Rightarrow> addSecurityHeadersToResponse (Some cached)
       | None \<Rightarrow> Inr (Some r)),
      caches_open CACHE_NAME st)"
  by (simp add: networkFirstWithSecurity_def Let_def cache_match_open catch_block_def
      split: option.splits sum.splits)

lemma network_first_rejected:
  "networkFirstWithSecurity st (Rejected e) put_ok req =
     ((case cache_match st CACHE_NAME req of
         Some cached \<Rightarrow> addSecurityHeadersToResponse (Some cached)
       | None \<Rightarrow> Inl e),
      caches_open CACHE_NAME st)"
  by (simp add: networkFirstWithSecurity_def Let_def cache_match_open catch_block_def
      split: option.splits)

lemma api_hardened:
  "\<exists>r'. handleApiCalendar sf st (Resolved (Some resp)) jr = (Inr (Some r'), st) \<and> hardened r'"
proof (cases "includes_str (get_or_empty (headers resp) ''Content-Type'') ''application/json''")
  case True
  show ?thesis
  proof (cases jr)
    case (Inl e)
    with True show ?thesis
      by (simp add: handleApiCalendar_def hardened_network_error_response)
  next
    case (Inr json)
    show ?thesis
    proof (cases "new_Response (json_body sf (sanitizeJsonStrings json)) (status resp)
                    (statusText resp) (set_security_headers (headers resp))")
      case (Inl e)
      with True Inr show ?thesis
        by (simp add: handleApiCalendar_def hardened_network_error_response)
    next
      case r: (Inr r')
      then have "hardened r'"
        by (auto dest: new_Response_Inr intro: hardened_headers)
      with True Inr r show ?thesis
        by (simp add: handleApiCalendar_def)
    qed
  qed
next
  case False
  show ?thesis
  proof (cases "rebuildable resp")
    case True
    with False show ?thesis
      by (simp add: handleApiCalendar_def add_Some hardened_add)
  next
    case nr: False
    with False show ?thesis
      by (simp add: handleApiCalendar_def add_fails hardened_network_error_response)
  qed
qed

lemma api_rejected:
  "handleApiCalendar sf st (Rejected e) jr = (Inr (Some network_error_response), st)"
  by (simp add: handleApiCalendar_def)

lemma api_json_sanitized:
  "includes_str (get_or_empty (headers resp) ''Content-Type'') ''application/json''
   \<Longrightarrow> rebuildable resp \<Longrightarrow> json \<noteq> JUndefined
   \<Longrightarrow> handleApiCalendar sf st (Resolved (Some resp)) (Inr json)
       = (Inr (Some \<lparr>status = status resp, statusText = statusText resp,
                      headers = set_security_headers (headers resp),
                      body = sf (sanitizeJsonStrings json)\<rparr>), st)"
  by (cases json)
     (simp_all add: handleApiCalendar_def new_Response_def rebuildable_def json_body_def)

text \<open>The sample values.\<close>

lemma sample_requests:
  "method (get_request m p) = ''GET''"
  "isSameOrigin app_origin (get_request m p)"
  "isNavigation (get_request m p) = (m = ''navigate'')"
  "isSensitiveApiPath prefix (get_request m p) = startsWith p prefix"
  "url_text (url (get_request m p)) = app_origin @ p"
  by (simp_all add: get_request_def isSameOrigin_def isNavigation_def isSensitiveApiPath_def
      get_or_empty_def headers_get_def)

lemma server_response_sel:
  "status (server_response c t b) = c"
  "statusText (server_response c t b) = []"
  "body (server_response c t b) = b"
  "headers (server_response c t b) ''content-type'' = Some t"
  "headers (server_response c t b) ''x-frame-options'' = Some ''SAMEORIGIN''"
  "headers (server_response c t b) ''server'' = Some ''nginx''"
  "headers_get (headers (server_response c t b)) ''Content-Type'' = Some t"
  by (simp_all add: server_response_def new_Headers_def headers_set_def headers_get_def lower_simps)

text \<open>The loop of \<open>sanitizeJsonStrings\<close> over the fields of an object.\<close>

lemma update_append: "k \<notin> fst ` set al \<Longrightarrow> AList.update k v al = al @ [(k, v)]"
  by (induction al) auto

lemma fold_assign:
  "distinct (map fst es) \<Longrightarrow> fst ` set acc \<inter> fst ` set es = {}
   \<Longrightarrow> fold (\<lambda>(k, v) out. assign k (f v) out) es acc
       = acc @ map (\<lambda>(k, v). (k, f v)) (filter (\<lambda>(k, v). k \<noteq> js ''__proto__'') es)"
proof (induction es arbitrary: acc)
  case Nil
  then show ?case by simp
next
  case (Cons e es)
  obtain k v where e: "e = (k, v)" by (cases e)
  from Cons.prems e have k: "k \<notin> fst ` set acc" "k \<notin> fst ` set es" "distinct (map fst es)"
    and d: "fst ` set acc \<inter> fst ` set es = {}"
    by auto
  from k d have "fst ` set (assign k (f v) acc) \<inter> fst ` set es = {}"
    by (auto simp add: assign_def update_append)
  with Cons.IH k have "fold (\<lambda>(k, v) out. assign k (f v) out) es (assign k (f v) acc)
      = assign k (f v) acc @ map (\<lambda>(k, v). (k, f v)) (filter (\<lambda>(k, v). k \<noteq> js ''__proto__'') es)"
    by blast
  with e k show ?case
    by (simp add: assign_def update_append)
qed

lemma sanitize_walk:
  "distinct_keys j \<Longrightarrow> sanitizeJsonStrings j = sanitizeJson_spec (without_proto j)"
proof (induction j)
  case (JArray xs)
  then show ?case by (simp add: list_all_iff)
next
  case (JObject es)
  then have d: "distinct (map fst es)" and
    ih: "\<And>k v. (k, v) \<in> set es \<Longrightarrow> sanitizeJsonStrings v = sanitizeJson_spec (without_proto v)"
    by (fastforce simp add: list_all_iff)+
  from d have "fold (\<lambda>(k, v) out. assign k (sanitizeJsonStrings v) out) es []
      = map (\<lambda>(k, v). (k, sanitizeJsonStrings v)) (filter (\<lambda>(k, v). k \<noteq> js ''__proto__'') es)"
    using fold_assign [of es "[]" sanitizeJsonStrings] by simp
  also have "\<dots> = map (\<lambda>(k, v). (k, sanitizeJson_spec (without_proto v)))
                     (filter (\<lambda>(k, v). k \<noteq> js ''__proto__'') es)"
    using ih by (intro map_cong) auto
  finally show ?case by (simp add: comp_def case_prod_unfold)
qed simp_all

lemma without_proto_id: "no_proto j \<Longrightarrow> without_proto j = j"
proof (induction j)
  case (JArray xs)
  then show ?case by (simp add: list_all_iff map_idI)
next
  case (JObject es)
  then have k: "\<And>k v. (k, v) \<in> set es \<Longrightarrow> k \<noteq> js ''__proto__''"
    and ih: "\<And>k v. (k, v) \<in> set es \<Longrightarrow> without_proto v = v"
    by (fastforce simp add: list_all_iff)+
  from k have "filter (\<lambda>(k, v). k \<noteq> js ''__proto__'') es = es"
    by (intro filter_True) auto
  moreover from ih have "map (\<lambda>(k, v). (k, without_proto v)) es = es"
    by (intro map_idI) auto
  ultimately show ?case by simp
qed simp_all

section \<open>The sanitizer of the sensitive API\<close>

lemma sanitizeString_samples:
  \<open>sanitizeString (js ''<script>alert(1)</script>hello'') = js ''hello''\<close>
  \<open>sanitizeString (js ''onclick="bad()"x'') = js ''x''\<close>
  \<open>sanitizeString (js ''javascript:evil()'') = js ''evil()''\<close>
  by code_simp+

text \<open>
  C4, as amended. For every same-origin GET request under \<open>/api/calendar\<close> that is not a
  navigation and does not accept HTML, answered with a JSON content type, a body that
  parses and a status with which a response with a body can be built, the body returned
  is the serialization of the sanitized value. For a parsed value in which no object has
  a field named \<open>__proto__\<close>, the sanitized value is the parsed value with the sanitizer
  applied to every string at every depth, all else unchanged; and the sanitizer maps
  \<^verbatim>\<open><script>alert(1)</script>hello\<close> to exactly \<^verbatim>\<open>hello\<close>,
  \<^verbatim>\<open>onclick="bad()"x\<close> to exactly \<^verbatim>\<open>x\<close>, and
  \<^verbatim>\<open>javascript:evil()\<close> to exactly \<^verbatim>\<open>evil()\<close>.
\<close>

theorem sanitizer_samples:
  \<open>(method req = ''GET'' \<and> isSameOrigin A req \<and> \<not> isNavigation req
      \<and> isSensitiveApiPath ''/api/calendar'' req
      \<and> includes_str (get_or_empty (headers resp) ''Content-Type'') ''application/json''
      \<and> rebuildable resp \<and> json \<noteq> JUndefined
      \<longrightarrow> fst (fetch_listener A sf st (Resolved (Some resp)) (Inr json) po req)
          = RespondWith ApiCalendar
              (Inr (Some \<lparr>status = status resp, statusText = statusText resp,
                            headers = set_security_headers (headers resp),
                            body = sf (sanitizeJsonStrings json)\<rparr>)))
   \<and> (distinct_keys json \<and> no_proto json
        \<longrightarrow> sanitizeJsonStrings json = sanitizeJson_spec json)
   \<and> sanitizeString (js ''<script>alert(1)</script>hello'') = js ''hello''
   \<and> sanitizeString (js ''onclick="bad()"x'') = js ''x''
   \<and> sanitizeString (js ''javascript:evil()'') = js ''evil()''\<close>
  using fetch_listener_api [of req A sf st "Resolved (Some resp)" "Inr json" po]
    api_json_sanitized [of resp json sf st] sanitize_walk [of json] without_proto_id [of json]
  by (simp add: sanitizeString_samples respond_def)

text \<open>A calendar whose one event carries a script element in its title, two levels
  deep.\<close>

theorem sanitizer_samples_witness:
  \<open>method (get_request ''cors'' ''/api/calendar/events'') = ''GET''
   \<and> isSameOrigin app_origin (get_request ''cors'' ''/api/calendar/events'')
   \<and> \<not> isNavigation (get_request ''cors'' ''/api/calendar/events'')
   \<and> isSensitiveApiPath ''/api/calendar'' (get_request ''cors'' ''/api/calendar/events'')
   \<and> rebuildable (server_response 200 ''application/json''
                     ''{"events":[{"title":"<script>alert(1)</script>hello"}]}'')
   \<and> distinct_keys
         (JObject [(js ''events'',
            JArray [JObject [(js ''title'', JString (js ''<script>alert(1)</script>hello''))]])])
   \<and> no_proto
         (JObject [(js ''events'',
            JArray [JObject [(js ''title'', JString (js ''<script>alert(1)</script>hello''))]])])
   \<and> sanitizeJson_spec
         (JObject [(js ''events'',
            JArray [JObject [(js ''title'', JString (js ''<script>alert(1)</script>hello''))]])])
     = JObject [(js ''events'', JArray [JObject [(js ''title'', JString (js ''hello''))]])]
   \<and> fst (fetch_listener app_origin sample_stringify []
            (Resolved (Some (server_response 200 ''application/json''
                               ''{"events":[{"title":"<script>alert(1)</script>hello"}]}'')))
            (Inr (JObject [(js ''events'',
                    JArray [JObject [(js ''title'', JString (js ''<script>alert(1)</script>hello''))]])]))
            True (get_request ''cors'' ''/api/calendar/events''))
     = RespondWith ApiCalendar
         (Inr (Some \<lparr>status = 200, statusText = [],
                       headers = set_security_headers
                         (headers (server_response 200 ''application/json''
                            ''{"events":[{"title":"<script>alert(1)</script>hello"}]}'')),
                       body = ''{"events":[{"title":"hello"}]}''\<rparr>))\<close>
proof -
  let ?req = "get_request ''cors'' ''/api/calendar/events''"
  let ?resp = \<open>server_response 200 ''application/json''
                 ''{"events":[{"title":"<script>alert(1)</script>hello"}]}''\<close>
  let ?json = "JObject [(js ''events'',
                 JArray [JObject [(js ''title'', JString (js ''<script>alert(1)</script>hello''))]])]"
  have h: "method ?req = ''GET''" "isSameOrigin app_origin ?req" "\<not> isNavigation ?req"
    "isSensitiveApiPath ''/api/calendar'' ?req"
    "includes_str (get_or_empty (headers ?resp) ''Content-Type'') ''application/json''"
    "rebuildable ?resp" "?json \<noteq> JUndefined"
    by (simp_all add: sample_requests get_or_empty_def server_response_sel rebuildable_def
        null_body_status_def)
  have d: "distinct_keys ?json" "no_proto ?json"
    by (simp_all add: js_def)
  have w: "sanitizeJson_spec ?json
           = JObject [(js ''events'', JArray [JObject [(js ''title'', JString (js ''hello''))]])]"
    by (simp add: sanitizeString_samples)
  have s: "sanitizeJsonStrings ?json
           = JObject [(js ''events'', JArray [JObject [(js ''title'', JString (js ''hello''))]])]"
    by code_simp
  from h d s w sanitizer_samples [of ?req app_origin ?resp ?json sample_stringify "[]" True]
  show ?thesis
    by (simp add: sample_stringify_def server_response_sel
        del: sanitizeJsonStrings.simps sanitizeJson_spec.simps distinct_keys.simps no_proto.simps)
qed

text \<open>
  The claim as stated fails: a navigation to a URL under \<open>/api/calendar\<close> goes to the
  navigation handler, and the JSON body with the script element is returned as it came.
  And where the sanitizer is applied, a field named \<open>__proto__\<close> is not mapped but
  lost.
\<close>

theorem sanitizer_samples_counterexample:
  \<open>isSensitiveApiPath ''/api/calendar'' (get_request ''navigate'' ''/api/calendar/events'')
   \<and> fst (fetch_listener app_origin sample_stringify []
            (Resolved (Some (server_response 200 ''application/json''
                               ''{"title":"<script>alert(1)</script>hello"}'')))
            (Inr (JObject [(js ''title'', JString (js ''<script>alert(1)</script>hello''))]))
            True (get_request ''navigate'' ''/api/calendar/events''))
     = RespondWith Navigation
         (Inr (Some (hardened_copy (server_response 200 ''application/json''
                                      ''{"title":"<script>alert(1)</script>hello"}''))))
   \<and> body (hardened_copy (server_response 200 ''application/json''
                             ''{"title":"<script>alert(1)</script>hello"}''))
     = ''{"title":"<script>alert(1)</script>hello"}''
   \<and> sanitizeJsonStrings
         (JObject [(js ''__proto__'', JString (js ''<script>alert(1)</script>hello''))])
     = JObject []\<close>
  by (simp add: sample_requests fetch_listener_navigation respond_def handleNavigationRequest_def
      add_Some rebuildable_def null_body_status_def server_response_sel hardened_copy_sel
      assign_def)

section \<open>Activation\<close>

text \<open>
  C7. Activation deletes every cache generation whose id differs from the current id, in
  both variants: whatever the storage held, no other id is left, and after the
  installation of the current generation (in the cache-first variant: when it succeeds)
  the generations are exactly the current one.
\<close>

theorem activation_leaves_current_generation:
  "set (caches_keys (activate st)) \<subseteq> {CACHE_NAME}
   \<and> set (caches_keys (activate (install st))) = {CACHE_NAME}
   \<and> set (caches_keys (pwa_activate pst)) \<subseteq> {pwa_CACHE_NAME}
   \<and> (\<forall>pst1. pwa_install base fetch_asset pst = (None, pst1)
         \<longrightarrow> set (caches_keys (pwa_activate pst1)) = {pwa_CACHE_NAME})"
proof -
  have a: "set (caches_keys (activate st)) \<subseteq> {CACHE_NAME}"
    by (auto simp add: keys_activate)
  have b: "set (caches_keys (activate (install st))) = {CACHE_NAME}"
    unfolding keys_activate install_def
    by (rule singleton_filter) (rule open_has_key)
  have c: "set (caches_keys (pwa_activate pst)) \<subseteq> {pwa_CACHE_NAME}"
    by (auto simp add: keys_pwa_activate)
  have d: "set (caches_keys (pwa_activate pst1)) = {pwa_CACHE_NAME}"
    if "pwa_install base fetch_asset pst = (None, pst1)" for pst1
  proof -
    from that have "caches_keys pst1 = caches_keys (caches_open pwa_CACHE_NAME pst)"
      by (auto simp add: pwa_install_def Let_def keys_fold_put split: sum.splits)
    then have "pwa_CACHE_NAME \<in> set (caches_keys pst1)"
      by (simp add: open_has_key)
    then show ?thesis
      unfolding keys_pwa_activate by (rule singleton_filter)
  qed
  from a b c d show ?thesis by blast
qed

text \<open>A generation \<open>v0\<close> was current before; every asset is served.\<close>

theorem activation_leaves_current_generation_witness:
  "set (caches_keys (activate (install [(''arminos-static-v0'', Map.empty)]))) = {CACHE_NAME}
   \<and> (\<exists>pst1. pwa_install ''https://app.example/''
                 (\<lambda>u. Resolved (Some (server_response 200 ''text/html'' ''<html></html>'')))
                 [(''planos-pwa-v0'', Map.empty)] = (None, pst1)
              \<and> set (caches_keys (pwa_activate pst1)) = {pwa_CACHE_NAME})"
proof -
  let ?f = "\<lambda>u::string. Resolved (Some (server_response 200 ''text/html'' ''<html></html>''))"
  let ?st = "[(''planos-pwa-v0'', Map.empty)] :: cache_storage"
  have "\<exists>r. ?f u = Resolved (Some r) \<and> ok r" for u :: string
    by (simp add: ok_def server_response_def)
  then obtain rs where "fetch_all ?f (map (resolve ''https://app.example/'') ASSETS) = Inr rs"
    using fetch_all_ok [of ?f] by blast
  then obtain pst1 where h: "pwa_install ''https://app.example/'' ?f ?st = (None, pst1)"
    by (simp add: pwa_install_def)
  note t = activation_leaves_current_generation
             [of "[(''arminos-static-v0'', Map.empty)]" ?st "''https://app.example/''" ?f]
  from t have a: "set (caches_keys (activate (install [(''arminos-static-v0'', Map.empty)]))) = {CACHE_NAME}"
    by (rule conjunct1 [OF conjunct2])
  from t h have "set (caches_keys (pwa_activate pst1)) = {pwa_CACHE_NAME}"
    by simp
  with h a show ?thesis by (intro conjI exI [of _ pst1])
qed

section \<open>Routing\<close>

text \<open>
  C3. The fetch listener of the security variant routes in this order, the first match
  winning: a request that is not GET or not same-origin is not intercepted (no response
  is given for it, so no header is added, and the cache storage is left as it was); a
  navigation or a request accepting HTML goes to the navigation handler; a request
  whose path starts with \<open>/api/calendar\<close> goes to the handler of the sensitive API;
  every other request goes to the default network-first handler.
\<close>

theorem routing_precedence:
  "(method req \<noteq> ''GET'' \<or> \<not> isSameOrigin A req
      \<longrightarrow> fetch_listener A sf st net jr po req = (NotIntercepted, st))
   \<and> (method req = ''GET'' \<and> isSameOrigin A req \<and> isNavigation req
      \<longrightarrow> fetch_listener A sf st net jr po req
          = respond Navigation (handleNavigationRequest A st net))
   \<and> (method req = ''GET'' \<and> isSameOrigin A req \<and> \<not> isNavigation req
       \<and> isSensitiveApiPath ''/api/calendar'' req
      \<longrightarrow> fetch_listener A sf st net jr po req
          = respond ApiCalendar (handleApiCalendar sf st net jr))
   \<and> (method req = ''GET'' \<and> isSameOrigin A req \<and> \<not> isNavigation req
       \<and> \<not> isSensitiveApiPath ''/api/calendar'' req
      \<longrightarrow> fetch_listener A sf st net jr po req
          = respond NetworkFirst (networkFirstWithSecurity st net po req))"
  using fetch_listener_pass [of req A sf st net jr po]
    fetch_listener_navigation [of req A sf st net jr po]
    fetch_listener_api [of req A sf st net jr po]
    fetch_listener_default [of req A sf st net jr po]
  by blast

text \<open>One request for each of the four routes, the network being down.\<close>

theorem routing_precedence_witness:
  "fetch_listener app_origin sample_stringify [] (Rejected TypeError) (Inl SyntaxError) True
     ((get_request ''cors'' ''/api/calendar/events'')\<lparr>method := ''POST''\<rparr>) = (NotIntercepted, [])
   \<and> fetch_listener app_origin sample_stringify [] (Rejected TypeError) (Inl SyntaxError) True
       (get_request ''navigate'' ''/api/calendar/view'')
     = (RespondWith Navigation (Inr (Some offline_response)), [(CACHE_NAME, Map.empty)])
   \<and> fetch_listener app_origin sample_stringify [] (Rejected TypeError) (Inl SyntaxError) True
       (get_request ''cors'' ''/api/calendar/events'')
     = (RespondWith ApiCalendar (Inr (Some network_error_response)), [])
   \<and> fetch_listener app_origin sample_stringify [] (Rejected TypeError) (Inl SyntaxError) True
       (get_request ''cors'' ''/app.js'')
     = (RespondWith NetworkFirst (Inl TypeError), [(CACHE_NAME, Map.empty)])"
  using
    routing_precedence [of "(get_request ''cors'' ''/api/calendar/events'')\<lparr>method := ''POST''\<rparr>"
      app_origin sample_stringify "[]" "Rejected TypeError" "Inl SyntaxError" True]
    routing_precedence [of "get_request ''navigate'' ''/api/calendar/view''"
      app_origin sample_stringify "[]" "Rejected TypeError" "Inl SyntaxError" True]
    routing_precedence [of "get_request ''cors'' ''/api/calendar/events''"
      app_origin sample_stringify "[]" "Rejected TypeError" "Inl SyntaxError" True]
    routing_precedence [of "get_request ''cors'' ''/app.js''"
      app_origin sample_stringify "[]" "Rejected TypeError" "Inl SyntaxError" True]
  by (simp add: sample_requests respond_def handleNavigationRequest_def handleApiCalendar_def
      networkFirstWithSecurity_def catch_block_def caches_open_def caches_keys_def
      cache_match_url_def cache_match_def)

section \<open>Header hardening\<close>

text \<open>
  What \<open>addSecurityHeadersToResponse\<close> does on every response. When the constructor
  builds the response again, the result has the same status and the same body, byte for
  byte, every entry of the Security Header Set is set, whatever value the header had
  before, the \<open>Server\<close> header is absent, and every other header is as it was. When
  the status is a null-body status or lies outside 200 to 599, the function throws and
  there is no result.
\<close>

lemma add_security_headers_cases:
  "(rebuildable r
      \<longrightarrow> (\<exists>r'. addSecurityHeadersToResponse (Some r) = Inr (Some r')
             \<and> status r' = status r \<and> body r' = body r
             \<and> hardened r'
             \<and> headers_get (headers r') ''Server'' = None
             \<and> (\<forall>n. lower n \<notin> set security_header_names \<and> lower n \<noteq> lower ''Server''
                     \<longrightarrow> headers_get (headers r') n = headers_get (headers r) n)))
   \<and> (\<not> rebuildable r \<longrightarrow> (\<exists>e. addSecurityHeadersToResponse (Some r) = Inl e))"
  by (simp add: add_Some add_fails hardened_add hardened_copy_sel headers_get_def
      headers_delete_def set_security_headers_apply lower_simps SECURITY_HEADERS_def
      security_header_names_def)

lemma add_security_headers_png:
  "addSecurityHeadersToResponse
     (Some (server_response 200 ''image/png'' [CHR 0x89, CHR ''P'', CHR ''N'', CHR ''G'', CHR 0xFF]))
   = Inr (Some (hardened_copy
       (server_response 200 ''image/png'' [CHR 0x89, CHR ''P'', CHR ''N'', CHR ''G'', CHR 0xFF])))
   \<and> body (hardened_copy
       (server_response 200 ''image/png'' [CHR 0x89, CHR ''P'', CHR ''N'', CHR ''G'', CHR 0xFF]))
     = [CHR 0x89, CHR ''P'', CHR ''N'', CHR ''G'', CHR 0xFF]"
  by (simp add: add_Some rebuildable_def null_body_status_def server_response_sel hardened_copy_sel)

text \<open>
  C6. The claim, that for every response the result is a response with the same status
  and the same body, fails on the code for a response with a null-body status: for a
  204 without content the body read from it is an empty \<open>ArrayBuffer\<close>, the constructor
  refuses a body with status 204, and the function throws a \<open>TypeError\<close> instead of
  returning a response. The same happens for 205 and 304, and a status outside 200 to
  599 is refused with a \<open>RangeError\<close>.
\<close>

theorem add_security_headers_no_content:
  "addSecurityHeadersToResponse (Some (server_response 204 ''text/plain'' [])) = Inl TypeError
   \<and> addSecurityHeadersToResponse (Some (server_response 205 ''text/plain'' [])) = Inl TypeError
   \<and> addSecurityHeadersToResponse (Some (server_response 304 ''text/plain'' [])) = Inl TypeError
   \<and> addSecurityHeadersToResponse (Some (server_response 0 ''text/plain'' [])) = Inl RangeError"
  by (simp add: add_fails rebuildable_def null_body_status_def server_response_sel)

section \<open>Network-first handling\<close>

text \<open>
  C1, as amended. In the default handler, when the fetch resolves with a 2xx status with
  which a response with a body can be built (any but 204 and 205), the returned response
  carries every entry of the Security Header Set, and, for a GET request whose
  \<open>cache.put\<close> the platform accepts, the current cache generation afterwards holds
  that response for the request. The handler of the sensitive API returns a response
  carrying every entry of the Security Header Set whenever the fetch resolves with a
  response, and leaves the cache storage as it was: it never caches.
\<close>

theorem network_success_hardened_and_cached:
  assumes "ok r" and "rebuildable r"
  shows "fst (networkFirstWithSecurity st (Resolved (Some r)) put_ok req)
           = Inr (Some (hardened_copy r))
         \<and> hardened (hardened_copy r)
         \<and> (put_ok \<and> method req = ''GET''
              \<longrightarrow> cache_match (snd (networkFirstWithSecurity st (Resolved (Some r)) put_ok req))
                    CACHE_NAME req = Some r)
         \<and> (\<exists>r'. fst (handleApiCalendar sf st (Resolved (Some resp)) jr) = Inr (Some r')
              \<and> hardened r')
         \<and> snd (handleApiCalendar sf st (Resolved (Some resp)) jr) = st"
proof -
  have a: "fst (networkFirstWithSecurity st (Resolved (Some r)) put_ok req)
             = Inr (Some (hardened_copy r))"
    using assms by (simp add: network_first_ok)
  have b: "cache_match (snd (networkFirstWithSecurity st (Resolved (Some r)) put_ok req))
             CACHE_NAME req = Some r"
    if "put_ok" "method req = ''GET''"
    using assms that by (simp add: network_first_ok cache_match_def cache_match_url_put open_has_key)
  obtain r' where c: "handleApiCalendar sf st (Resolved (Some resp)) jr = (Inr (Some r'), st)"
    "hardened r'"
    using api_hardened [of sf st resp jr] by blast
  from a b c show ?thesis by (simp add: hardened_add)
qed

text \<open>A style sheet fetched by the default handler, a plain-text answer of the API.\<close>

theorem network_success_hardened_and_cached_witness:
  "ok (server_response 200 ''text/css'' ''body{}'')
   \<and> rebuildable (server_response 200 ''text/css'' ''body{}'')
   \<and> fst (networkFirstWithSecurity [] (Resolved (Some (server_response 200 ''text/css'' ''body{}'')))
            True (get_request ''cors'' ''/app.css''))
     = Inr (Some (hardened_copy (server_response 200 ''text/css'' ''body{}'')))
   \<and> hardened (hardened_copy (server_response 200 ''text/css'' ''body{}''))
   \<and> cache_match (snd (networkFirstWithSecurity [] (Resolved (Some (server_response 200 ''text/css'' ''body{}'')))
                         True (get_request ''cors'' ''/app.css'')))
        CACHE_NAME (get_request ''cors'' ''/app.css'')
      = Some (server_response 200 ''text/css'' ''body{}'')
   \<and> (\<exists>r'. fst (handleApiCalendar sample_stringify [] (Resolved (Some (server_response 200 ''text/plain'' ''pong'')))
                   (Inl SyntaxError)) = Inr (Some r')
            \<and> hardened r')
   \<and> snd (handleApiCalendar sample_stringify [] (Resolved (Some (server_response 200 ''text/plain'' ''pong'')))
             (Inl SyntaxError)) = []"
proof -
  have h: "ok (server_response 200 ''text/css'' ''body{}'')"
    "rebuildable (server_response 200 ''text/css'' ''body{}'')"
    by (simp_all add: ok_def rebuildable_def null_body_status_def server_response_sel)
  from h network_success_hardened_and_cached
         [OF h, of "[]" True "get_request ''cors'' ''/app.css''" sample_stringify
            "server_response 200 ''text/plain'' ''pong''" "Inl SyntaxError"]
  show ?thesis by (simp add: sample_requests)
qed

text \<open>
  The claim as stated fails: a same-origin GET under \<open>/api/calendar\<close> answered with
  200 is hardened, but the current generation holds no entry for it afterwards; and the
  default handler returns a 304, a status that is no error, without the headers and
  without caching it.
\<close>

theorem network_success_hardened_and_cached_counterexample:
  "fst (fetch_listener app_origin sample_stringify [(CACHE_NAME, Map.empty)]
          (Resolved (Some (server_response 200 ''text/plain'' ''pong''))) (Inl SyntaxError) True
          (get_request ''cors'' ''/api/calendar/ping''))
   = RespondWith ApiCalendar
       (Inr (Some (hardened_copy (server_response 200 ''text/plain'' ''pong''))))
   \<and> cache_match
         (snd (fetch_listener app_origin sample_stringify [(CACHE_NAME, Map.empty)]
                 (Resolved (Some (server_response 200 ''text/plain'' ''pong''))) (Inl SyntaxError) True
                 (get_request ''cors'' ''/api/calendar/ping'')))
         CACHE_NAME (get_request ''cors'' ''/api/calendar/ping'') = None
   \<and> fst (fetch_listener app_origin sample_stringify [(CACHE_NAME, Map.empty)]
            (Resolved (Some (server_response 304 ''text/css'' []))) (Inl SyntaxError) True
            (get_request ''cors'' ''/app.css''))
     = RespondWith NetworkFirst (Inr (Some (server_response 304 ''text/css'' [])))
   \<and> \<not> hardened (server_response 304 ''text/css'' [])
   \<and> cache_match
         (snd (fetch_listener app_origin sample_stringify [(CACHE_NAME, Map.empty)]
                 (Resolved (Some (server_response 304 ''text/css'' []))) (Inl SyntaxError) True
                 (get_request ''cors'' ''/app.css'')))
         CACHE_NAME (get_request ''cors'' ''/app.css'') = None"
  by (simp add: fetch_listener_api fetch_listener_default sample_requests respond_def
      handleApiCalendar_def add_Some rebuildable_def null_body_status_def
      network_first_not_ok ok_def server_response_sel get_or_empty_def
      cache_match_def cache_match_url_def caches_open_def caches_keys_def hardened_iff)

text \<open>
  C2, as amended. In the default handler, when the fetch fails and the current
  generation holds an entry for the request that can be built again with its body, the
  returned response has the status and the body of the cached one, and its headers are
  the cached headers with the Security Header Set applied and \<open>Server\<close> removed. The
  other two handlers do not look for an entry of the request: the handler of the
  sensitive API answers a failed fetch with the synthesized 502 response, and the
  navigation handler with the cached \<open>/offline.html\<close> or the synthesized 503 page.
\<close>

theorem network_failure_falls_back_to_cache:
  assumes "cache_match st CACHE_NAME req = Some cached" and "rebuildable cached"
  shows "fst (networkFirstWithSecurity st (Rejected e) put_ok req)
           = Inr (Some (hardened_copy cached))
         \<and> body (hardened_copy cached) = body cached
         \<and> status (hardened_copy cached) = status cached
         \<and> hardened (hardened_copy cached)
         \<and> headers (hardened_copy cached)
             = headers_delete ''Server'' (set_security_headers (headers cached))
         \<and> handleApiCalendar sf st (Rejected e) jr = (Inr (Some network_error_response), st)
         \<and> handleNavigationRequest A st (Rejected e)
             = ((case cache_match_url st CACHE_NAME (A @ ''/offline.html'') of
                   Some page \<Rightarrow> addSecurityHeadersToResponse (Some page)
                 | None \<Rightarrow> Inr (Some offline_response)),
                caches_open CACHE_NAME st)"
  using assms
  by (simp add: network_first_rejected add_Some hardened_add hardened_copy_sel api_rejected
      handleNavigationRequest_def cache_match_url_open split: option.splits)

text \<open>A cached style sheet, the network being down.\<close>

theorem network_failure_falls_back_to_cache_witness:
  "cache_match [(CACHE_NAME, [app_origin @ ''/app.css'' \<mapsto> server_response 200 ''text/css'' ''body{}''])]
     CACHE_NAME (get_request ''cors'' ''/app.css'')
   = Some (server_response 200 ''text/css'' ''body{}'')
   \<and> rebuildable (server_response 200 ''text/css'' ''body{}'')
   \<and> fst (networkFirstWithSecurity
            [(CACHE_NAME, [app_origin @ ''/app.css'' \<mapsto> server_response 200 ''text/css'' ''body{}''])]
            (Rejected TypeError) True (get_request ''cors'' ''/app.css''))
     = Inr (Some (hardened_copy (server_response 200 ''text/css'' ''body{}'')))
   \<and> body (hardened_copy (server_response 200 ''text/css'' ''body{}'')) = ''body{}''
   \<and> status (hardened_copy (server_response 200 ''text/css'' ''body{}'')) = 200
   \<and> hardened (hardened_copy (server_response 200 ''text/css'' ''body{}''))"
proof -
  let ?st = "[(CACHE_NAME, [app_origin @ ''/app.css'' \<mapsto> server_response 200 ''text/css'' ''body{}''])]"
  have h: "cache_match ?st CACHE_NAME (get_request ''cors'' ''/app.css'')
           = Some (server_response 200 ''text/css'' ''body{}'')"
    "rebuildable (server_response 200 ''text/css'' ''body{}'')"
    by (simp_all add: cache_match_def cache_match_url_def sample_requests rebuildable_def
        null_body_status_def server_response_sel)
  from h network_failure_falls_back_to_cache
         [OF h, of TypeError True sample_stringify "Inl SyntaxError" app_origin]
  show ?thesis by (simp add: server_response_sel)
qed

text \<open>
  The claim as stated fails. A page is fetched by a script and cached by the default
  handler; then the network goes down and the same URL is navigated to: the current
  generation holds an entry for the request, and the response returned is the
  synthesized offline page, not the cached page.
\<close>

theorem network_failure_falls_back_to_cache_counterexample:
  "snd (fetch_listener app_origin sample_stringify []
          (Resolved (Some (server_response 200 ''text/html'' ''<p>Agenda</p>'')))
          (Inl SyntaxError) True (get_request ''cors'' ''/agenda.html''))
   = [(CACHE_NAME, [app_origin @ ''/agenda.html'' \<mapsto> server_response 200 ''text/html'' ''<p>Agenda</p>''])]
   \<and> cache_match
         [(CACHE_NAME, [app_origin @ ''/agenda.html'' \<mapsto> server_response 200 ''text/html'' ''<p>Agenda</p>''])]
         CACHE_NAME (get_request ''navigate'' ''/agenda.html'')
     = Some (server_response 200 ''text/html'' ''<p>Agenda</p>'')
   \<and> fst (fetch_listener app_origin sample_stringify
            [(CACHE_NAME, [app_origin @ ''/agenda.html'' \<mapsto> server_response 200 ''text/html'' ''<p>Agenda</p>''])]
            (Rejected TypeError) (Inl SyntaxError) True (get_request ''navigate'' ''/agenda.html''))
     = RespondWith Navigation (Inr (Some offline_response))
   \<and> body offline_response \<noteq> ''<p>Agenda</p>''"
proof -
  have "body offline_response \<noteq> ''<p>Agenda</p>''"
    by (simp add: offline_response_def)
  then show ?thesis
    by (simp add: fetch_listener_default fetch_listener_navigation sample_requests respond_def
        network_first_ok ok_def rebuildable_def null_body_status_def server_response_sel
        handleNavigationRequest_def cache_match_def cache_match_url_def cache_put_def
        caches_open_def caches_keys_def)
qed

text \<open>
  What the default handler does with a response whose status is outside 200 to 299, 4xx
  included. It is never written to the cache: the handler only opens the current
  generation, and every lookup in the storage answers as before. Without an entry for
  the request, the network response itself is returned, with no header added. With an
  entry that can be built again with its body, that entry is returned with hardened
  headers; with an entry that cannot, the handler is rejected.
\<close>

lemma non_ok_response_cases:
  assumes "method req = ''GET''" and "isSameOrigin A req" and "\<not> isNavigation req"
    and "\<not> isSensitiveApiPath ''/api/calendar'' req" and "\<not> ok r"
  shows "snd (fetch_listener A sf st (Resolved (Some r)) jr put_ok req) = caches_open CACHE_NAME st
         \<and> (\<forall>name key. cache_match_url (caches_open CACHE_NAME st) name key
                          = cache_match_url st name key)
         \<and> (cache_match st CACHE_NAME req = None
              \<longrightarrow> fst (fetch_listener A sf st (Resolved (Some r)) jr put_ok req)
                  = RespondWith NetworkFirst (Inr (Some r)))
         \<and> (\<forall>cached. cache_match st CACHE_NAME req = Some cached \<and> rebuildable cached
              \<longrightarrow> fst (fetch_listener A sf st (Resolved (Some r)) jr put_ok req)
                  = RespondWith NetworkFirst (Inr (Some (hardened_copy cached)))
                  \<and> hardened (hardened_copy cached)
                  \<and> body (hardened_copy cached) = body cached)
         \<and> (\<forall>cached. cache_match st CACHE_NAME req = Some cached \<and> \<not> rebuildable cached
              \<longrightarrow> (\<exists>e. fst (fetch_listener A sf st (Resolved (Some r)) jr put_ok req)
                        = RespondWith NetworkFirst (Inl e)))"
  using assms
  by (simp add: fetch_listener_default respond_def network_first_not_ok cache_match_url_open
      add_Some add_fails hardened_add hardened_copy_sel)

lemma non_ok_response_samples:
  "fetch_listener app_origin sample_stringify
     [(CACHE_NAME, [app_origin @ ''/app.css'' \<mapsto> server_response 200 ''text/css'' ''body{}''])]
     (Resolved (Some (server_response 404 ''text/plain'' ''Not Found''))) (Inl SyntaxError) True
     (get_request ''cors'' ''/app.css'')
   = (RespondWith NetworkFirst
        (Inr (Some (hardened_copy (server_response 200 ''text/css'' ''body{}'')))),
      [(CACHE_NAME, [app_origin @ ''/app.css'' \<mapsto> server_response 200 ''text/css'' ''body{}''])])
   \<and> fetch_listener app_origin sample_stringify [(CACHE_NAME, Map.empty)]
       (Resolved (Some (server_response 404 ''text/plain'' ''Not Found''))) (Inl SyntaxError) True
       (get_request ''cors'' ''/app.css'')
     = (RespondWith NetworkFirst (Inr (Some (server_response 404 ''text/plain'' ''Not Found''))),
        [(CACHE_NAME, Map.empty)])"
  by (simp add: fetch_listener_default sample_requests respond_def network_first_not_ok ok_def
      server_response_sel cache_match_def cache_match_url_def caches_open_def caches_keys_def
      add_Some rebuildable_def null_body_status_def)

text \<open>
  C10. The claim, that the cached entry, if one exists, is returned with hardened
  headers, fails on the code for a cached entry with a null-body status, which the
  worker stores itself. A GET answered with 204 is written to the cache by the default
  handler, although the handler is then rejected; when the same URL is later answered
  with 404, the 404 is not written to the cache, but the cached 204 is not returned
  either: the handler is rejected with a \<open>TypeError\<close>.
\<close>

theorem non_ok_response_with_cached_no_content:
  "fetch_listener app_origin sample_stringify []
     (Resolved (Some (server_response 204 ''text/plain'' []))) (Inl SyntaxError) True
     (get_request ''cors'' ''/ping'')
   = (RespondWith NetworkFirst (Inl TypeError),
      [(CACHE_NAME, [app_origin @ ''/ping'' \<mapsto> server_response 204 ''text/plain'' []])])
   \<and> fetch_listener app_origin sample_stringify
       [(CACHE_NAME, [app_origin @ ''/ping'' \<mapsto> server_response 204 ''text/plain'' []])]
       (Resolved (Some (server_response 404 ''text/plain'' ''Not Found''))) (Inl SyntaxError) True
       (get_request ''cors'' ''/ping'')
     = (RespondWith NetworkFirst (Inl TypeError),
        [(CACHE_NAME, [app_origin @ ''/ping'' \<mapsto> server_response 204 ''text/plain'' []])])"
  by (simp add: fetch_listener_default sample_requests respond_def networkFirstWithSecurity_def
      catch_block_def Let_def ok_def server_response_sel cache_match_def cache_match_url_def
      cache_put_def caches_open_def caches_keys_def add_fails rebuildable_def
      null_body_status_def)

text \<open>The request is one the listener hands to the default handler, and 404 is not ok.\<close>

theorem non_ok_response_with_cached_no_content_witness:
  "method (get_request ''cors'' ''/ping'') = ''GET''
   \<and> isSameOrigin app_origin (get_request ''cors'' ''/ping'')
   \<and> \<not> isNavigation (get_request ''cors'' ''/ping'')
   \<and> \<not> isSensitiveApiPath ''/api/calendar'' (get_request ''cors'' ''/ping'')
   \<and> \<not> ok (server_response 404 ''text/plain'' ''Not Found'')
   \<and> cache_match [(CACHE_NAME, [app_origin @ ''/ping'' \<mapsto> server_response 204 ''text/plain'' []])]
         CACHE_NAME (get_request ''cors'' ''/ping'')
       = Some (server_response 204 ''text/plain'' [])
   \<and> fst (fetch_listener app_origin sample_stringify
            [(CACHE_NAME, [app_origin @ ''/ping'' \<mapsto> server_response 204 ''text/plain'' []])]
            (Resolved (Some (server_response 404 ''text/plain'' ''Not Found''))) (Inl SyntaxError) True
            (get_request ''cors'' ''/ping''))
     = RespondWith NetworkFirst (Inl TypeError)"
  using non_ok_response_with_cached_no_content
  by (simp add: sample_requests ok_def server_response_sel cache_match_def cache_match_url_def)

section \<open>The sensitive API\<close>

text \<open>
  C5, as amended. For every response of the sensitive API whose content type indicates
  JSON but whose body fails to parse, the handler returns the synthesized 502 response:
  its headers carry the Security Header Set, and its body is the constant
  \<^verbatim>\<open>{"error":"Network error"}\<close>, not the body received.
\<close>

theorem unparsable_json_answered_with_error:
  assumes "includes_str (get_or_empty (headers resp) ''Content-Type'') ''application/json''"
    and "jr = Inl err"
  shows \<open>handleApiCalendar sf st (Resolved (Some resp)) jr = (Inr (Some network_error_response), st)
         \<and> hardened network_error_response
         \<and> status network_error_response = 502
         \<and> body network_error_response = ''{"error":"Network error"}''\<close>
  using assms
  by (simp add: handleApiCalendar_def hardened_network_error_response)
     (simp add: network_error_response_def)

text \<open>An HTML error page served as JSON.\<close>

theorem unparsable_json_answered_with_error_witness:
  \<open>includes_str (get_or_empty (headers (server_response 200 ''application/json'' ''<html>Bad Gateway</html>''))
                  ''Content-Type'') ''application/json''
   \<and> handleApiCalendar sample_stringify [] (Resolved (Some (server_response 200 ''application/json'' ''<html>Bad Gateway</html>'')))
        (Inl SyntaxError)
     = (Inr (Some network_error_response), [])
   \<and> hardened network_error_response\<close>
proof -
  let ?r = "server_response 200 ''application/json'' ''<html>Bad Gateway</html>''"
  have h: "includes_str (get_or_empty (headers ?r) ''Content-Type'') ''application/json''"
    by (simp add: get_or_empty_def server_response_sel)
  from h unparsable_json_answered_with_error [OF h refl, of sample_stringify "[]" SyntaxError]
  show ?thesis by simp
qed

text \<open>
  The claim as stated fails: the body received is not passed on, and neither is the
  status.
\<close>

theorem unparsable_json_answered_with_error_counterexample:
  \<open>fst (fetch_listener app_origin sample_stringify []
          (Resolved (Some (server_response 200 ''application/json'' ''<html>Bad Gateway</html>'')))
          (Inl SyntaxError) True (get_request ''cors'' ''/api/calendar/events''))
   = RespondWith ApiCalendar (Inr (Some network_error_response))
   \<and> body network_error_response \<noteq> ''<html>Bad Gateway</html>''
   \<and> status network_error_response \<noteq> 200\<close>
  by (simp add: sample_requests fetch_listener_api respond_def handleApiCalendar_def
      get_or_empty_def server_response_sel network_error_response_def)

section \<open>Control messages\<close>

text \<open>
  C8, as amended. For every control message whose sender is not a client of the worker's
  own origin, or whose data is not an object, or whose \<open>type\<close> is neither
  \<open>CONFIRM_DELETE\<close> nor \<open>SW_HEALTH_CHECK\<close>, the worker posts nothing, neither to
  the clients nor to the sender; the listener has no way to surface an error.
\<close>

theorem unrecognized_message_dropped:
  assumes "\<not> same_origin_sender A (source ev) \<or> \<not> is_object (data ev)
           \<or> (get_property (data ev) ''type'' \<noteq> Inr (JString (js ''CONFIRM_DELETE''))
              \<and> get_property (data ev) ''type'' \<noteq> Inr (JString (js ''SW_HEALTH_CHECK'')))"
  shows "message_listener A clients ev = []"
proof (cases "same_origin_sender A (source ev) \<and> is_object (data ev)")
  case False
  then show ?thesis
    by (cases "data ev")
       (auto simp add: message_listener_def message_body_def same_origin_sender_def is_object_def
          split: event_source.splits url.splits sum.splits)
next
  case True
  with assms have t: "get_property (data ev) ''type'' \<noteq> Inr (JString (js ''CONFIRM_DELETE''))"
    "get_property (data ev) ''type'' \<noteq> Inr (JString (js ''SW_HEALTH_CHECK''))"
    by auto
  from True t show ?thesis
    by (cases "data ev")
       (auto simp add: message_listener_def message_body_def same_origin_sender_def is_object_def
          split: event_source.splits url.splits sum.splits option.splits)
qed

text \<open>A sender of another origin, a string for data, and an object without
  \<open>type\<close>.\<close>

theorem unrecognized_message_dropped_witness:
  "\<not> same_origin_sender app_origin
       (Client (Parsed \<lparr>href = ''https://evil.example/'', origin = ''https://evil.example'',
                        pathname = ''/''\<rparr>))
   \<and> message_listener app_origin [1, 2]
        \<lparr>data = JObject [(js ''type'', JString (js ''SW_HEALTH_CHECK''))],
         source = Client (Parsed \<lparr>href = ''https://evil.example/'', origin = ''https://evil.example'',
                                   pathname = ''/''\<rparr>)\<rparr> = []
   \<and> \<not> is_object (JString (js ''CONFIRM_DELETE''))
   \<and> message_listener app_origin [1, 2]
        \<lparr>data = JString (js ''CONFIRM_DELETE''),
         source = Client (Parsed \<lparr>href = ''https://app.example/'', origin = app_origin,
                                   pathname = ''/''\<rparr>)\<rparr> = []
   \<and> message_listener app_origin [1, 2]
        \<lparr>data = JObject [(js ''projectId'', JString (js ''p1''))],
         source = Client (Parsed \<lparr>href = ''https://app.example/'', origin = app_origin,
                                   pathname = ''/''\<rparr>)\<rparr> = []"
proof -
  let ?evil = "Client (Parsed \<lparr>href = ''https://evil.example/'', origin = ''https://evil.example'',
                                pathname = ''/''\<rparr>)"
  let ?own = "Client (Parsed \<lparr>href = ''https://app.example/'', origin = app_origin, pathname = ''/''\<rparr>)"
  have a: "\<not> same_origin_sender app_origin ?evil"
    by (simp add: same_origin_sender_def app_origin_def)
  have b: "\<not> is_object (JString (js ''CONFIRM_DELETE''))"
    by (simp add: is_object_def)
  have c: "get_property (JObject [(js ''projectId'', JString (js ''p1''))]) ''type'' = Inr JUndefined"
    by (simp add: js_def)
  from a b c
    unrecognized_message_dropped
      [of app_origin "\<lparr>data = JObject [(js ''type'', JString (js ''SW_HEALTH_CHECK''))], source = ?evil\<rparr>" "[1, 2]"]
    unrecognized_message_dropped
      [of app_origin "\<lparr>data = JString (js ''CONFIRM_DELETE''), source = ?own\<rparr>" "[1, 2]"]
    unrecognized_message_dropped
      [of app_origin "\<lparr>data = JObject [(js ''projectId'', JString (js ''p1''))], source = ?own\<rparr>" "[1, 2]"]
  show ?thesis by simp
qed

text \<open>
  The claim as stated fails for a message that lacks a required field: a
  \<open>CONFIRM_DELETE\<close> without \<open>projectId\<close> from a client of the worker's own origin
  is relayed to every window client, with \<open>projectId\<close> undefined.
\<close>

theorem unrecognized_message_dropped_counterexample:
  "message_listener app_origin [1, 2]
     \<lparr>data = JObject [(js ''type'', JString (js ''CONFIRM_DELETE''))],
      source = Client (Parsed \<lparr>href = ''https://app.example/'', origin = app_origin,
                                pathname = ''/''\<rparr>)\<rparr>
   = [(ToClient 1, confirm_delete JUndefined), (ToClient 2, confirm_delete JUndefined)]"
  by (simp add: message_listener_def message_body_def js_def)

section \<open>The cache-first variant on a failed fetch\<close>

text \<open>
  C9, as amended. In the cache-first variant, for every request that is no navigation
  and has no cached entry, a failed fetch is not propagated: the promise given to
  \<open>respondWith\<close> is fulfilled with no response (\<open>undefined\<close>), and the cache storage
  is left as it was.
\<close>

theorem pwa_network_failure_resolves_empty:
  assumes "mode req \<noteq> ''navigate''" and "caches_match st req = None"
  shows "pwa_fetch_listener self_origin base st (Rejected e) put_ok req = (Inr None, st)"
  using assms by (simp add: pwa_fetch_listener_def)

text \<open>A request for data that no cache holds, the network being down.\<close>

theorem pwa_network_failure_resolves_empty_witness:
  "mode (get_request ''cors'' ''/api/data'') \<noteq> ''navigate''
   \<and> caches_match [(pwa_CACHE_NAME, Map.empty)] (get_request ''cors'' ''/api/data'') = None
   \<and> pwa_fetch_listener app_origin ''https://app.example/'' [(pwa_CACHE_NAME, Map.empty)]
        (Rejected TypeError) True (get_request ''cors'' ''/api/data'')
     = (Inr None, [(pwa_CACHE_NAME, Map.empty)])"
proof -
  have a: "mode (get_request ''cors'' ''/api/data'') \<noteq> ''navigate''"
    by (simp add: get_request_def)
  have b: "caches_match [(pwa_CACHE_NAME, Map.empty)] (get_request ''cors'' ''/api/data'') = None"
    by (simp add: caches_match_def)
  from a b pwa_network_failure_resolves_empty
             [OF a b, of app_origin "''https://app.example/''" TypeError True]
  show ?thesis by simp
qed

text \<open>The claim as stated fails: the rejection of the fetch is turned into an empty
  response.\<close>

theorem pwa_network_failure_resolves_empty_counterexample:
  "fst (pwa_fetch_listener app_origin ''https://app.example/'' [(pwa_CACHE_NAME, Map.empty)]
          (Rejected TypeError) True (get_request ''cors'' ''/api/data'')) = Inr None
   \<and> fst (pwa_fetch_listener app_origin ''https://app.example/'' [(pwa_CACHE_NAME, Map.empty)]
          (Rejected TypeError) True (get_request ''cors'' ''/api/data'')) \<noteq> Inl TypeError"
  by (simp add: pwa_fetch_listener_def caches_match_def get_request_def)

end
